theory Spec2Isabelle
  imports Complex_Main "HOL-Library.AList" "HOL-Library.Sublist"
begin

section \<open>Python values and exceptions\<close>

text \<open>
  The records handled by the stock research tool are Python dictionaries whose values come
  from JSON responses and SQLite rows: \<open>None\<close>, booleans, numbers, strings, lists and
  dictionaries. Numbers (Python \<open>int\<close> and \<open>float\<close>) are idealised as reals; rounding,
  overflow and NaN are outside this model.
\<close>

datatype pyval =
    PNone
  | PBool bool
  | PNum real
  | PStr string
  | PList "pyval list"
  | PDict "(string \<times> pyval) list"

datatype py_error =
    KeyError
  | IndexError
  | TypeError
  | ZeroDivisionError
  | ValueError string
  | RequestException
  | SqliteError

text \<open>A dictionary with string keys: \<open>d[k]\<close>, \<open>d.get(k)\<close> and \<open>d.get(k, default)\<close>.\<close>

type_synonym pydict = "string \<rightharpoonup> pyval"

definition getitem :: "pydict \<Rightarrow> string \<Rightarrow> py_error + pyval" where
  "getitem d k = (case d k of None \<Rightarrow> Inl KeyError | Some v \<Rightarrow> Inr v)"

definition get :: "pydict \<Rightarrow> string \<Rightarrow> pyval" where
  "get d k = (case d k of None \<Rightarrow> PNone | Some v \<Rightarrow> v)"

definition get_default :: "pydict \<Rightarrow> string \<Rightarrow> pyval \<Rightarrow> pyval" where
  "get_default d k dflt = (case d k of None \<Rightarrow> dflt | Some v \<Rightarrow> v)"

text \<open>Truthiness of a value (\<open>if v:\<close>).\<close>

fun truthy :: "pyval \<Rightarrow> bool" where
  "truthy PNone = False"
| "truthy (PBool b) = b"
| "truthy (PNum x) = (x \<noteq> 0)"
| "truthy (PStr s) = (s \<noteq> [])"
| "truthy (PList l) = (l \<noteq> [])"
| "truthy (PDict d) = (d \<noteq> [])"

text \<open>
  The number a value stands for in arithmetic and ordering comparisons with a number;
  \<open>bool\<close> is a subclass of \<open>int\<close>. Every other value raises \<open>TypeError\<close> there.
\<close>

fun num_of :: "pyval \<Rightarrow> real option" where
  "num_of (PNum x) = Some x"
| "num_of (PBool b) = Some (if b then 1 else 0)"
| "num_of _ = None"

text \<open>\<open>v > 0\<close> for a value \<open>v\<close>.\<close>

definition gt_zero :: "pyval \<Rightarrow> py_error + bool" where
  "gt_zero v = (case num_of v of None \<Rightarrow> Inl TypeError | Some x \<Rightarrow> Inr (x > 0))"

text \<open>Sequencing of computations that may raise: the first exception propagates.\<close>

definition bind :: "py_error + 'a \<Rightarrow> ('a \<Rightarrow> py_error + 'b) \<Rightarrow> py_error + 'b" where
  "bind m f = (case m of Inl e \<Rightarrow> Inl e | Inr x \<Rightarrow> f x)"

section \<open>config_manager.py: the sector parameter store\<close>

text \<open>
  The in-memory configuration \<open>self.config\<close>: the \<open>sectors\<close> dictionary maps a sector name
  to a dictionary over the keys \<open>growth_rate\<close>, \<open>pe_ratio\<close> and \<open>discount_rate\<close>, with
  numeric values; \<open>random_seed\<close> holds \<open>mode\<close>, \<open>value\<close> and \<open>last_used\<close>;
  \<open>last_updated\<close> is a timestamp string. The state of a \<open>ConfigManager\<close> is this
  configuration together with the content of the JSON file it was last saved to.
\<close>

type_synonym sector_params = "string \<rightharpoonup> real"

record config =
  sectors :: "string \<rightharpoonup> sector_params"
  seed_mode :: string
  seed_value :: "int option"
  seed_last_used :: "int option"
  last_updated :: string

record config_manager =
  config :: config
  saved_file :: "config option"

definition default_sectors :: "string \<rightharpoonup> sector_params" where
  "default_sectors = map_of
    [(''Technology'', map_of [(''growth_rate'', 0.08), (''pe_ratio'', 25.0), (''discount_rate'', 0.10)]),
     (''Healthcare'', map_of [(''growth_rate'', 0.06), (''pe_ratio'', 20.0), (''discount_rate'', 0.09)]),
     (''Financials'', map_of [(''growth_rate'', 0.04), (''pe_ratio'', 15.0), (''discount_rate'', 0.08)]),
     (''Consumer Discretionary'', map_of [(''growth_rate'', 0.05), (''pe_ratio'', 18.0), (''discount_rate'', 0.09)]),
     (''Consumer Staples'', map_of [(''growth_rate'', 0.03), (''pe_ratio'', 16.0), (''discount_rate'', 0.07)]),
     (''Energy'', map_of [(''growth_rate'', 0.04), (''pe_ratio'', 12.0), (''discount_rate'', 0.10)]),
     (''Utilities'', map_of [(''growth_rate'', 0.02), (''pe_ratio'', 14.0), (''discount_rate'', 0.06)]),
     (''Industrials'', map_of [(''growth_rate'', 0.04), (''pe_ratio'', 17.0), (''discount_rate'', 0.08)]),
     (''Materials'', map_of [(''growth_rate'', 0.04), (''pe_ratio'', 15.0), (''discount_rate'', 0.09)]),
     (''Real Estate'', map_of [(''growth_rate'', 0.03), (''pe_ratio'', 16.0), (''discount_rate'', 0.07)]),
     (''Communication Services'', map_of [(''growth_rate'', 0.06), (''pe_ratio'', 20.0), (''discount_rate'', 0.09)])]"

definition default_config :: "string \<Rightarrow> config" where
  "default_config ts =
     \<lparr>sectors = default_sectors, seed_mode = ''generate'', seed_value = None,
      seed_last_used = None, last_updated = ts\<rparr>"

text \<open>
  \<open>get_sector_params(sector)\<close> is \<open>self.config["sectors"].get(sector, {})\<close>. The sector of a
  stock record is an arbitrary value; the keys of \<open>sectors\<close> are strings, so only a string
  can find an entry, and an unhashable value (a list or a dictionary) raises \<open>TypeError\<close>.
\<close>

definition get_sector_params :: "config \<Rightarrow> pyval \<Rightarrow> py_error + sector_params" where
  "get_sector_params cfg sector =
     (case sector of
        PStr s \<Rightarrow> Inr (case sectors cfg s of None \<Rightarrow> Map.empty | Some p \<Rightarrow> p)
      | PList _ \<Rightarrow> Inl TypeError
      | PDict _ \<Rightarrow> Inl TypeError
      | _ \<Rightarrow> Inr Map.empty)"

section \<open>intrinsic_value_calculator.py\<close>

text \<open>
  \<open>calculate_dcf(fcf, growth_rate, discount_rate, years=10, terminal_growth=0.02)\<close> on
  numbers. \<open>future_cash_flows[-1]\<close> raises \<open>IndexError\<close> on an empty list, and each division
  raises \<open>ZeroDivisionError\<close> when its divisor is zero; the statements are evaluated in
  the order of the source.
\<close>

definition calculate_dcf :: "real \<Rightarrow> real \<Rightarrow> real \<Rightarrow> nat \<Rightarrow> real \<Rightarrow> py_error + real" where
  "calculate_dcf fcf growth_rate discount_rate years terminal_growth =
     (let future_cash_flows = map (\<lambda>t. fcf * (1 + growth_rate) ^ t) [1..<years + 1] in
      if future_cash_flows = [] then Inl IndexError
      else if discount_rate - terminal_growth = 0 then Inl ZeroDivisionError
      else
        let terminal_value =
              last future_cash_flows * (1 + terminal_growth) / (discount_rate - terminal_growth) in
        if list_ex (\<lambda>t. (1 + discount_rate) ^ t = 0) [1..<length future_cash_flows + 1]
        then Inl ZeroDivisionError
        else
          let discounted_cf =
                map (\<lambda>(t, cf). cf / (1 + discount_rate) ^ t)
                    (zip [1..<length future_cash_flows + 1] future_cash_flows) in
          if (1 + discount_rate) ^ years = 0 then Inl ZeroDivisionError
          else Inr (sum_list discounted_cf + terminal_value / (1 + discount_rate) ^ years))"

text \<open>
  The call \<open>self.calculate_dcf(fcf, growth_rate, discount_rate)\<close> of \<open>get_intrinsic_value\<close>,
  where \<open>fcf\<close> and \<open>growth_rate\<close> are values of the record. A value that is not a number
  raises \<open>TypeError\<close>: \<open>1 + growth_rate\<close> at once, and \<open>fcf\<close> at the latest in
  \<open>future_cash_flows[-1] * (1 + terminal_growth)\<close>, a product with a float, which is
  evaluated before the first division.
\<close>

definition call_calculate_dcf :: "pyval \<Rightarrow> pyval \<Rightarrow> real \<Rightarrow> py_error + real" where
  "call_calculate_dcf fcf growth_rate discount_rate =
     (case (num_of fcf, num_of growth_rate) of
        (Some f, Some g) \<Rightarrow> calculate_dcf f g discount_rate 10 0.02
      | _ \<Rightarrow> Inl TypeError)"

text \<open>
  Lines 54 to 58: the DCF sub-estimate per share, \<open>None\<close> unless
  \<open>fcf and shares > 0\<close>. The test \<open>shares > 0\<close> is evaluated only for a truthy \<open>fcf\<close>.
\<close>

definition dcf_per_share :: "pyval \<Rightarrow> pyval \<Rightarrow> pyval \<Rightarrow> real \<Rightarrow> py_error + real option" where
  "dcf_per_share fcf shares growth_rate discount_rate =
     (if truthy fcf then
        bind (gt_zero shares) (\<lambda>pos.
          if pos then
            bind (call_calculate_dcf fcf growth_rate discount_rate) (\<lambda>dcf_total.
              Inr (Some (dcf_total / the (num_of shares))))
          else Inr None)
      else Inr None)"

text \<open>
  Lines 60 to 65: the PEG sub-estimate, \<open>None\<close> unless
  \<open>eps and eps > 0 and growth_rate > 0\<close> (evaluated left to right, stopping at the first
  false operand).
\<close>

definition peg_intrinsic :: "sector_params \<Rightarrow> pyval \<Rightarrow> pyval \<Rightarrow> real \<Rightarrow> py_error + real option" where
  "peg_intrinsic sector_defaults eps growth_rate sector_pe =
     (if truthy eps then
        bind (gt_zero eps) (\<lambda>eps_pos.
          if eps_pos then
            bind (gt_zero growth_rate) (\<lambda>growth_pos.
              if growth_pos then
                let g = the (num_of growth_rate);
                    sector_growth =
                      (case sector_defaults ''growth_rate'' of None \<Rightarrow> g | Some sg \<Rightarrow> sg);
                    fair_pe =
                      (if sector_growth > 0 then sector_pe * (g / sector_growth) else sector_pe)
                in Inr (Some (fair_pe * the (num_of eps)))
              else Inr None)
          else Inr None)
      else Inr None)"

text \<open>
  Lines 67 to 69: \<open>values\<close> keeps the entries that are not \<open>None\<close>; the result is
  \<open>sum(values) / len(values)\<close> when \<open>values\<close> is not empty, and \<open>None\<close> otherwise.
  \<open>sum\<close> raises \<open>TypeError\<close> on an entry that is not a number.
\<close>

definition blend :: "pyval list \<Rightarrow> py_error + real option" where
  "blend candidates =
     (let values = filter (\<lambda>v. v \<noteq> PNone) candidates in
      if values = [] then Inr None
      else if list_all (\<lambda>v. num_of v \<noteq> None) values
      then Inr (Some (sum_list (map (\<lambda>v. the (num_of v)) values) / real (length values)))
      else Inl TypeError)"

definition opt_val :: "real option \<Rightarrow> pyval" where
  "opt_val r = (case r of None \<Rightarrow> PNone | Some x \<Rightarrow> PNum x)"

text \<open>The local variables of \<open>get_intrinsic_value\<close> that the sub-estimates read.\<close>

definition resolved_growth_rate :: "sector_params \<Rightarrow> pydict \<Rightarrow> pyval" where
  "resolved_growth_rate sector_defaults stock_data =
     get_default stock_data ''growth_rate''
       (PNum (case sector_defaults ''growth_rate'' of None \<Rightarrow> 0.05 | Some g \<Rightarrow> g))"

definition resolved_discount_rate :: "sector_params \<Rightarrow> real" where
  "resolved_discount_rate sector_defaults =
     (case sector_defaults ''discount_rate'' of None \<Rightarrow> 0.10 | Some d \<Rightarrow> d)"

definition resolved_sector_pe :: "sector_params \<Rightarrow> real" where
  "resolved_sector_pe sector_defaults =
     (case sector_defaults ''pe_ratio'' of None \<Rightarrow> 15.0 | Some p \<Rightarrow> p)"

text \<open>The two computed sub-estimates of a record, as \<open>get_intrinsic_value\<close> computes them.\<close>

definition dcf_estimate :: "config \<Rightarrow> pydict \<Rightarrow> py_error + real option" where
  "dcf_estimate cfg stock_data =
     bind (getitem stock_data ''sector'') (\<lambda>sector.
     bind (get_sector_params cfg sector) (\<lambda>sector_defaults.
     bind (getitem stock_data ''price'') (\<lambda>price.
     bind (getitem stock_data ''shares'') (\<lambda>shares.
       dcf_per_share (get stock_data ''fcf'') shares
         (resolved_growth_rate sector_defaults stock_data)
         (resolved_discount_rate sector_defaults)))))"

definition peg_estimate :: "config \<Rightarrow> pydict \<Rightarrow> py_error + real option" where
  "peg_estimate cfg stock_data =
     bind (getitem stock_data ''sector'') (\<lambda>sector.
     bind (get_sector_params cfg sector) (\<lambda>sector_defaults.
     bind (getitem stock_data ''price'') (\<lambda>price.
     bind (getitem stock_data ''shares'') (\<lambda>shares.
       peg_intrinsic sector_defaults (get stock_data ''eps'')
         (resolved_growth_rate sector_defaults stock_data)
         (resolved_sector_pe sector_defaults)))))"

definition get_intrinsic_value :: "config \<Rightarrow> pydict \<Rightarrow> py_error + real option" where
  "get_intrinsic_value cfg stock_data =
     bind (getitem stock_data ''sector'') (\<lambda>sector.
     bind (get_sector_params cfg sector) (\<lambda>sector_defaults.
     bind (getitem stock_data ''price'') (\<lambda>price.
     bind (getitem stock_data ''shares'') (\<lambda>shares.
       let fcf = get stock_data ''fcf'';
           eps = get stock_data ''eps'';
           growth_rate = resolved_growth_rate sector_defaults stock_data;
           discount_rate = resolved_discount_rate sector_defaults;
           sector_pe = resolved_sector_pe sector_defaults;
           fmp_dcf = get stock_data ''fmp_dcf''
       in
       bind (dcf_per_share fcf shares growth_rate discount_rate) (\<lambda>dcf_per_share.
       bind (peg_intrinsic sector_defaults eps growth_rate sector_pe) (\<lambda>peg_intrinsic.
         blend [opt_val dcf_per_share, opt_val peg_intrinsic, fmp_dcf]))))))"

text \<open>
  The specification describes the blend as the arithmetic mean of the sub-estimates that
  are not null. This is that mean, written from the specification's words and not from
  the code: the three sub-estimates as optional numbers, \<open>None\<close> for a null one.
\<close>

definition mean_of_non_null :: "real option list \<Rightarrow> real option" where
  "mean_of_non_null estimates =
     (let present = [x. Some x \<leftarrow> estimates] in
      if present = [] then None else Some (sum_list present / real (length present)))"

text \<open>
  The externally supplied estimate \<open>stock_data.get('fmp_dcf')\<close> as an optional number: null
  when the value is \<open>None\<close>, and otherwise the number the value stands for.
\<close>

definition estimate_of :: "pyval \<Rightarrow> real option \<Rightarrow> bool" where
  "estimate_of v e = (if v = PNone then e = None else e \<noteq> None \<and> num_of v = e)"

section \<open>stock_analyzer.py\<close>

text \<open>
  The derived P/E is either a number or the sentinel \<open>float('-inf')\<close>. The sentinel is
  below every number: \<open>-inf <= x\<close> holds and \<open>-inf > x\<close> fails for every number \<open>x\<close>.
\<close>

datatype pe = NegInf | Finite real

fun pe_le :: "pe \<Rightarrow> real \<Rightarrow> bool" where
  "pe_le NegInf x = True"
| "pe_le (Finite p) x = (p \<le> x)"

fun pe_gt :: "pe \<Rightarrow> real \<Rightarrow> bool" where
  "pe_gt NegInf x = False"
| "pe_gt (Finite p) x = (p > x)"

text \<open>
  \<open>filter_params\<close>: \<open>exclude_negative_pe\<close> is the truth value of
  \<open>filter_params.get('exclude_negative_pe', False)\<close>; \<open>max_pe\<close> is \<open>None\<close> when the key is
  not in the dictionary and the number stored under it otherwise.
\<close>

record filter_params =
  exclude_negative_pe :: bool
  max_pe :: "real option"

text \<open>
  An entry of \<open>stock_list\<close>: the fetched dictionary (\<open>st_data\<close>) together with the keys
  that \<open>analyze_stocks\<close> adds to it (\<open>ticker\<close>, \<open>pe_ratio\<close>, \<open>intrinsic_value\<close>). The valuation
  reads none of the added keys, and the filter and the output read the added keys only
  after they are set.
\<close>

record stock =
  st_data :: pydict
  st_ticker :: string
  st_pe_ratio :: pe
  st_intrinsic_value :: "real option"

record output_stock =
  out_ticker :: string
  out_score :: real
  out_intrinsic_value :: "real option"
  out_price :: pyval
  out_sector :: pyval

definition AMEX_TICKERS :: "string set" where
  "AMEX_TICKERS = {''ZDGE'', ''SGE'', ''WTT'', ''LGL''}"

text \<open>A loop whose body may raise: the first exception ends it.\<close>

fun traverse :: "('a \<Rightarrow> py_error + 'b) \<Rightarrow> 'a list \<Rightarrow> py_error + 'b list" where
  "traverse f [] = Inr []"
| "traverse f (x # xs) = bind (f x) (\<lambda>y. bind (traverse f xs) (\<lambda>ys. Inr (y # ys)))"

text \<open>
  Lines 38 to 41: \<open>data['price'] / data['eps']\<close> if \<open>data.get('eps', 0) > 0\<close>, else
  \<open>float('-inf')\<close>. The comparison raises \<open>TypeError\<close> when the value under \<open>eps\<close> is not a
  number, \<open>None\<close> included; the default \<open>0\<close> is used only when the key is missing.
\<close>

definition derived_pe :: "pydict \<Rightarrow> py_error + pe" where
  "derived_pe d =
     bind (gt_zero (get_default d ''eps'' (PNum 0))) (\<lambda>eps_pos.
       if eps_pos then
         bind (getitem d ''price'') (\<lambda>price.
           case num_of price of
             None \<Rightarrow> Inl TypeError
           | Some p \<Rightarrow> Inr (Finite (p / the (num_of (get d ''eps'')))))
       else Inr NegInf)"

definition passes_filters :: "stock \<Rightarrow> filter_params \<Rightarrow> bool" where
  "passes_filters st fp =
     (if (case st_intrinsic_value st of None \<Rightarrow> True | Some v \<Rightarrow> v \<le> 0) then False
      else if exclude_negative_pe fp \<and> st_ticker st \<notin> AMEX_TICKERS \<and> pe_le (st_pe_ratio st) 0
      then False
      else if (case max_pe fp of None \<Rightarrow> False | Some m \<Rightarrow> pe_gt (st_pe_ratio st) m) then False
      else True)"

text \<open>
  Lines 50 to 57 and the output dictionaries: the score of a stock that passed the
  filters. \<open>None / price\<close> would raise \<open>TypeError\<close>.
\<close>

definition score_stock :: "stock \<Rightarrow> py_error + output_stock" where
  "score_stock st =
     bind (getitem (st_data st) ''price'') (\<lambda>price.
     bind (gt_zero price) (\<lambda>price_pos.
     bind (if price_pos then
             (case st_intrinsic_value st of
                None \<Rightarrow> Inl TypeError
              | Some v \<Rightarrow> Inr (v / the (num_of price)))
           else Inr 0) (\<lambda>score.
     bind (getitem (st_data st) ''sector'') (\<lambda>sector.
       Inr \<lparr>out_ticker = st_ticker st, out_score = score,
            out_intrinsic_value = st_intrinsic_value st,
            out_price = price, out_sector = sector\<rparr>))))"

text \<open>
  \<open>sorted(stocks, key=lambda x: x['score'], reverse=True)\<close>: descending by score, stocks
  of equal score in their original order.
\<close>

definition sorted_by_score :: "output_stock list \<Rightarrow> output_stock list" where
  "sorted_by_score stocks = rev (sort_key out_score (rev stocks))"

text \<open>
  The result of \<open>analyze_stocks\<close>: a ranked list, or a dictionary from sector to ranked
  list (its items in insertion order).
\<close>

datatype analysis =
    Ranked "output_stock list"
  | Grouped "(string \<times> output_stock list) list"

definition group_stock ::
  "(string \<times> output_stock list) list \<Rightarrow> output_stock \<Rightarrow> (string \<times> output_stock list) list" where
  "group_stock grouped st =
     (case out_sector st of
        PStr sector \<Rightarrow>
          (if sector \<in> fst ` set grouped
           then AList.map_entry sector (\<lambda>stocks. stocks @ [st]) grouped
           else grouped)
      | _ \<Rightarrow> grouped)"

text \<open>The stocks of \<open>output_stocks\<close>, before ranking.\<close>

definition output_stocks ::
  "config \<Rightarrow> (string \<times> pydict) list \<Rightarrow> filter_params \<Rightarrow> py_error + output_stock list" where
  "output_stocks cfg stock_data fp =
     bind (traverse (\<lambda>(t, d). bind (derived_pe d) (\<lambda>pe. Inr (t, d, pe))) stock_data)
       (\<lambda>stock_list.
     bind (traverse (\<lambda>(t, d, pe). bind (get_intrinsic_value cfg d) (\<lambda>iv.
             Inr \<lparr>st_data = d, st_ticker = t, st_pe_ratio = pe, st_intrinsic_value = iv\<rparr>)) stock_list)
       (\<lambda>valued.
     traverse score_stock (filter (\<lambda>st. passes_filters st fp) valued)))"

text \<open>
  Lines 72 to 78: one list per sector of \<open>sector_prefs\<close>, each stock appended to the list
  of its sector if that sector is a key, and every list ranked.
\<close>

definition group_by_sector ::
  "string list \<Rightarrow> output_stock list \<Rightarrow> (string \<times> output_stock list) list" where
  "group_by_sector sector_prefs outs =
     (let grouped = foldl (\<lambda>g sector. AList.update sector [] g) [] sector_prefs;
          grouped = foldl group_stock grouped outs
      in map (\<lambda>(sector, stocks). (sector, sorted_by_score stocks)) grouped)"

text \<open>
  \<open>analyze_stocks\<close>, from the dictionary that \<open>self.data_fetcher.fetch_data(tickers)\<close>
  returned (its items in insertion order). \<open>if sector_prefs:\<close> holds for a list that is
  not empty.
\<close>

definition analyze_stocks ::
  "config \<Rightarrow> (string \<times> pydict) list \<Rightarrow> filter_params \<Rightarrow> string list option
     \<Rightarrow> py_error + analysis" where
  "analyze_stocks cfg stock_data fp sector_prefs =
     bind (output_stocks cfg stock_data fp) (\<lambda>outs.
       case sector_prefs of
         Some (sector # others) \<Rightarrow> Inr (Grouped (group_by_sector (sector # others) outs))
       | _ \<Rightarrow> Inr (Ranked (sorted_by_score outs)))"

text \<open>Every stock that a result holds.\<close>

fun stocks_of :: "analysis \<Rightarrow> output_stock set" where
  "stocks_of (Ranked stocks) = set stocks"
| "stocks_of (Grouped grouped) = (\<Union>(sector, stocks) \<in> set grouped. set stocks)"

section \<open>config_manager.py: updates\<close>

text \<open>
  \<open>save_config(config)\<close> dumps the configuration to the file and then sets its
  \<open>last_updated\<close> to the current timestamp \<open>ts\<close>.
\<close>

definition save_config :: "string \<Rightarrow> config_manager \<Rightarrow> config_manager" where
  "save_config ts cm =
     \<lparr>config = (config cm)\<lparr>last_updated := ts\<rparr>, saved_file = Some (config cm)\<rparr>"

text \<open>
  \<open>params[key] = value\<close>, where \<open>params\<close> is the dictionary \<open>self.config["sectors"][sector]\<close>
  itself, not a copy of it.
\<close>

definition set_param :: "string \<Rightarrow> string \<Rightarrow> real \<Rightarrow> config_manager \<Rightarrow> config_manager" where
  "set_param sector key v cm =
     cm\<lparr>config := (config cm)\<lparr>sectors := (sectors (config cm))
          (sector \<mapsto> (case sectors (config cm) sector of
                         None \<Rightarrow> Map.empty(key \<mapsto> v)
                       | Some params \<Rightarrow> params(key \<mapsto> v)))\<rparr>\<rparr>"

text \<open>
  \<open>set_sector_params(sector, growth_rate=None, pe_ratio=None, discount_rate=None)\<close>.
  An update that raises returns the state it leaves behind together with the exception.
\<close>

definition set_sector_params ::
  "string \<Rightarrow> config_manager \<Rightarrow> string \<Rightarrow> real option \<Rightarrow> real option \<Rightarrow> real option
     \<Rightarrow> config_manager \<times> py_error option" where
  "set_sector_params ts cm sector growth_rate pe_ratio discount_rate =
     (let cm1 = (if sector \<notin> dom (sectors (config cm))
                 then cm\<lparr>config := (config cm)\<lparr>sectors :=
                        (sectors (config cm))(sector \<mapsto> Map.empty)\<rparr>\<rparr>
                 else cm) in
      if growth_rate \<noteq> None \<and> \<not> (0 \<le> the growth_rate \<and> the growth_rate \<le> 1)
      then (cm1, Some (ValueError ''Growth rate must be between 0 and 1.''))
      else
        let cm2 = (case growth_rate of None \<Rightarrow> cm1
                   | Some g \<Rightarrow> set_param sector ''growth_rate'' g cm1) in
        if pe_ratio \<noteq> None \<and> the pe_ratio \<le> 0
        then (cm2, Some (ValueError ''P/E ratio must be positive.''))
        else
          let cm3 = (case pe_ratio of None \<Rightarrow> cm2
                     | Some p \<Rightarrow> set_param sector ''pe_ratio'' p cm2) in
          if discount_rate \<noteq> None \<and> \<not> (0 \<le> the discount_rate \<and> the discount_rate \<le> 1)
          then (cm3, Some (ValueError ''Discount rate must be between 0 and 1.''))
          else
            let cm4 = (case discount_rate of None \<Rightarrow> cm3
                       | Some d \<Rightarrow> set_param sector ''discount_rate'' d cm3) in
            (save_config ts cm4, None))"

definition set_random_seed_mode ::
  "string \<Rightarrow> config_manager \<Rightarrow> string \<Rightarrow> int option \<Rightarrow> config_manager \<times> py_error option" where
  "set_random_seed_mode ts cm mode val =
     (if mode \<notin> set [''reuse'', ''generate'', ''specify'']
      then (cm, Some (ValueError ''Invalid mode. Use 'reuse', 'generate', or 'specify'.''))
      else
        let cm1 = cm\<lparr>config := (config cm)\<lparr>seed_mode := mode\<rparr>\<rparr> in
        if mode = ''specify'' \<and> val = None
        then (cm1, Some (ValueError ''Value must be provided when mode is 'specify'.''))
        else
          let cm2 = (if mode = ''specify''
                     then cm1\<lparr>config := (config cm1)\<lparr>seed_value := val\<rparr>\<rparr>
                     else cm1) in
          (save_config ts cm2, None))"

section \<open>database_manager.py\<close>

text \<open>
  A row of the table \<open>stock_data\<close>, apart from its key \<open>ticker\<close>. The column \<open>timestamp\<close>
  is \<open>NULL\<close> or holds the ISO text of an instant, modelled by that instant in
  microseconds. The conversions of SQLite's column affinities are not modelled.
\<close>

record row =
  row_price :: pyval
  row_shares :: pyval
  row_fcf :: pyval
  row_sector :: pyval
  row_eps :: pyval
  row_intrinsic_value :: pyval
  row_score :: pyval
  row_timestamp :: "int option"

type_synonym database = "string \<rightharpoonup> row"

definition get_cached_data :: "database \<Rightarrow> string \<Rightarrow> row option" where
  "get_cached_data db ticker = db ticker"

text \<open>\<open>cached_data.get(field) is not None\<close> for the dictionary made from a row.\<close>

definition row_has :: "row \<Rightarrow> string \<Rightarrow> bool" where
  "row_has r field =
     (if field = ''ticker'' then True
      else if field = ''price'' then row_price r \<noteq> PNone
      else if field = ''shares'' then row_shares r \<noteq> PNone
      else if field = ''fcf'' then row_fcf r \<noteq> PNone
      else if field = ''sector'' then row_sector r \<noteq> PNone
      else if field = ''eps'' then row_eps r \<noteq> PNone
      else if field = ''intrinsic_value'' then row_intrinsic_value r \<noteq> PNone
      else if field = ''score'' then row_score r \<noteq> PNone
      else if field = ''timestamp'' then row_timestamp r \<noteq> None
      else False)"

text \<open>A value that SQLite cannot bind as a parameter: a list or a dictionary.\<close>

fun bindable :: "pyval \<Rightarrow> bool" where
  "bindable (PList _) = False"
| "bindable (PDict _) = False"
| "bindable _ = True"

text \<open>
  \<open>save_stock_data(ticker, data)\<close> at the instant \<open>now\<close>: \<open>INSERT OR REPLACE\<close> of the whole
  row, which leaves \<open>intrinsic_value\<close> and \<open>score\<close> \<open>NULL\<close>.
\<close>

definition save_stock_data :: "int \<Rightarrow> database \<Rightarrow> string \<Rightarrow> pydict \<Rightarrow> py_error + database" where
  "save_stock_data now db ticker d =
     (let price = get d ''price''; shares = get d ''shares''; fcf = get d ''fcf'';
          sector = get d ''sector''; eps = get d ''eps'' in
      if list_all bindable [price, shares, fcf, sector, eps]
      then Inr (db(ticker \<mapsto>
             \<lparr>row_price = price, row_shares = shares, row_fcf = fcf, row_sector = sector,
              row_eps = eps, row_intrinsic_value = PNone, row_score = PNone,
              row_timestamp = Some now\<rparr>))
      else Inl SqliteError)"

section \<open>data_fetcher.py\<close>

text \<open>
  The remote data source: for each endpoint and ticker, either the request fails with a
  \<open>RequestException\<close> (no connection, an error status at \<open>raise_for_status\<close>, a body that
  is not JSON), or it returns a JSON body.
\<close>

datatype endpoint = Quote | Profile | CashFlow | Income

datatype response = Failed | Body pyval

type_synonym remote = "endpoint \<Rightarrow> string \<Rightarrow> response"

definition request :: "remote \<Rightarrow> endpoint \<Rightarrow> string \<Rightarrow> py_error + pyval" where
  "request api e ticker = (case api e ticker of Failed \<Rightarrow> Inl RequestException | Body b \<Rightarrow> Inr b)"

text \<open>
  \<open>x[0]\<close>, \<open>key in x\<close> and \<open>x[key]\<close> for a JSON value \<open>x\<close> and a string \<open>key\<close>. The keys
  of a JSON object are strings, so \<open>x[0]\<close> on an object raises \<open>KeyError\<close>.
\<close>

fun first_item :: "pyval \<Rightarrow> py_error + pyval" where
  "first_item (PList (x # xs)) = Inr x"
| "first_item (PList []) = Inl IndexError"
| "first_item (PStr (c # cs)) = Inr (PStr [c])"
| "first_item (PStr []) = Inl IndexError"
| "first_item (PDict d) = Inl KeyError"
| "first_item _ = Inl TypeError"

fun contains_key :: "string \<Rightarrow> pyval \<Rightarrow> py_error + bool" where
  "contains_key key (PDict d) = Inr (key \<in> fst ` set d)"
| "contains_key key (PList l) = Inr (PStr key \<in> set l)"
| "contains_key key (PStr s) = Inr (sublist key s)"
| "contains_key key _ = Inl TypeError"

fun item_at :: "pyval \<Rightarrow> string \<Rightarrow> py_error + pyval" where
  "item_at (PDict d) key = (case map_of d key of None \<Rightarrow> Inl KeyError | Some v \<Rightarrow> Inr v)"
| "item_at _ key = Inl TypeError"

text \<open>\<open>body[0][key] if body and key in body[0] else None\<close>.\<close>

definition field_of :: "string \<Rightarrow> pyval \<Rightarrow> py_error + pyval" where
  "field_of key body =
     (if truthy body then
        bind (first_item body) (\<lambda>x0.
        bind (contains_key key x0) (\<lambda>present.
          if present then bind (first_item body) (\<lambda>x0. item_at x0 key) else Inr PNone))
      else Inr PNone)"

text \<open>The body of the \<open>try\<close> block of \<open>fetch_from_api\<close> for one ticker.\<close>

definition fetch_ticker :: "remote \<Rightarrow> string \<Rightarrow> py_error + pydict" where
  "fetch_ticker api ticker =
     bind (request api Quote ticker) (\<lambda>price_data.
     bind (field_of ''price'' price_data) (\<lambda>price.
     bind (request api Profile ticker) (\<lambda>profile_data.
     bind (field_of ''sharesOutstanding'' profile_data) (\<lambda>shares.
     bind (field_of ''sector'' profile_data) (\<lambda>sector.
     bind (request api CashFlow ticker) (\<lambda>cashflow_data.
     bind (field_of ''freeCashFlow'' cashflow_data) (\<lambda>fcf.
     bind (request api Income ticker) (\<lambda>income_data.
     bind (field_of ''eps'' income_data) (\<lambda>eps.
       Inr [''price'' \<mapsto> price, ''shares'' \<mapsto> shares, ''fcf'' \<mapsto> fcf,
            ''sector'' \<mapsto> sector, ''eps'' \<mapsto> eps])))))))))"

text \<open>
  The exceptions named by the \<open>except\<close> clause of \<open>fetch_from_api\<close>:
  \<open>requests.exceptions.RequestException\<close>, \<open>IndexError\<close> and \<open>KeyError\<close>.
\<close>

fun caught :: "py_error \<Rightarrow> bool" where
  "caught RequestException = True"
| "caught IndexError = True"
| "caught KeyError = True"
| "caught _ = False"

text \<open>
  \<open>fetch_from_api(tickers)\<close>, with the dictionary \<open>result\<close> built so far (its items in
  insertion order) and the tickers that requests were sent for so far. An exception that
  the \<open>except\<close> clause does not name ends the loop and leaves the function.
\<close>

fun fetch_from_api ::
  "remote \<Rightarrow> string list \<Rightarrow> (string \<times> pydict) list \<Rightarrow> string list
     \<Rightarrow> string list \<times> (py_error + (string \<times> pydict) list)" where
  "fetch_from_api api [] result contacted = (contacted, Inr result)"
| "fetch_from_api api (ticker # tickers) result contacted =
     (case fetch_ticker api ticker of
        Inr d \<Rightarrow> fetch_from_api api tickers (AList.update ticker d result) (contacted @ [ticker])
      | Inl e \<Rightarrow>
          if caught e then fetch_from_api api tickers result (contacted @ [ticker])
          else (contacted @ [ticker], Inl e))"

definition validate_data :: "pydict \<Rightarrow> string list \<Rightarrow> bool" where
  "validate_data d required_fields =
     list_all (\<lambda>field. field \<in> dom d \<and> d field \<noteq> Some PNone) required_fields"

text \<open>
  \<open>is_cache_valid(timestamp_str)\<close> at the instant \<open>now\<close> (\<open>datetime.now(timezone.utc)\<close>),
  with \<open>self.cache_duration\<close> in microseconds, the resolution of \<open>datetime\<close> and
  \<open>timedelta\<close>. The stored timestamp is read as a UTC instant
  (\<open>.replace(tzinfo=timezone.utc)\<close>). \<open>datetime.fromisoformat(None)\<close> raises \<open>TypeError\<close>.
\<close>

definition is_cache_valid :: "int \<Rightarrow> int \<Rightarrow> int option \<Rightarrow> py_error + bool" where
  "is_cache_valid cache_duration now timestamp =
     (case timestamp of
        None \<Rightarrow> Inl TypeError
      | Some ts \<Rightarrow> Inr (now - ts < cache_duration))"

definition cached_record :: "row \<Rightarrow> pydict" where
  "cached_record r =
     [''price'' \<mapsto> row_price r, ''shares'' \<mapsto> row_shares r, ''fcf'' \<mapsto> row_fcf r,
      ''sector'' \<mapsto> row_sector r, ''eps'' \<mapsto> row_eps r]"

text \<open>
  Lines 47 to 63 with \<open>use_cache\<close> set: the loop over \<open>tickers\<close> that fills \<open>result\<close> from
  the cache and \<open>to_fetch\<close> with the other tickers. The wall clock is read as one instant
  \<open>now\<close> for the whole call.
\<close>

fun cache_loop ::
  "int \<Rightarrow> int \<Rightarrow> database \<Rightarrow> string list \<Rightarrow> string list
     \<Rightarrow> (string \<times> pydict) list \<Rightarrow> string list
     \<Rightarrow> py_error + ((string \<times> pydict) list \<times> string list)" where
  "cache_loop cache_duration now db required_fields [] result to_fetch = Inr (result, to_fetch)"
| "cache_loop cache_duration now db required_fields (ticker # tickers) result to_fetch =
     (case get_cached_data db ticker of
        None \<Rightarrow>
          cache_loop cache_duration now db required_fields tickers result (to_fetch @ [ticker])
      | Some cached_data \<Rightarrow>
          if list_all (row_has cached_data) required_fields then
            bind (is_cache_valid cache_duration now (row_timestamp cached_data)) (\<lambda>valid.
              if valid then
                cache_loop cache_duration now db required_fields tickers
                  (AList.update ticker (cached_record cached_data) result) to_fetch
              else
                cache_loop cache_duration now db required_fields tickers result
                  (to_fetch @ [ticker]))
          else
            cache_loop cache_duration now db required_fields tickers result
              (to_fetch @ [ticker]))"

text \<open>
  Lines 67 to 73: the loop over \<open>api_data.items()\<close> that validates, saves and adds the
  fetched records. It returns the database it leaves behind and the result or exception.
\<close>

fun store_loop ::
  "int \<Rightarrow> string list \<Rightarrow> (string \<times> pydict) list \<Rightarrow> database \<Rightarrow> (string \<times> pydict) list
     \<Rightarrow> database \<times> (py_error + (string \<times> pydict) list)" where
  "store_loop now required_fields [] db result = (db, Inr result)"
| "store_loop now required_fields ((ticker, d) # api_data) db result =
     (if validate_data d required_fields then
        (case save_stock_data now db ticker d of
           Inl e \<Rightarrow> (db, Inl e)
         | Inr db' \<Rightarrow> store_loop now required_fields api_data db' (AList.update ticker d result))
      else store_loop now required_fields api_data db result)"

text \<open>
  The outcome of \<open>fetch_data\<close>: the database after the call, the tickers that requests
  were sent for, and the returned dictionary or the exception that left the call.
\<close>

record fetch_outcome =
  db_after :: database
  contacted :: "string list"
  returned :: "py_error + (string \<times> pydict) list"

definition fetch_data ::
  "int \<Rightarrow> int \<Rightarrow> remote \<Rightarrow> database \<Rightarrow> string list \<Rightarrow> string list \<Rightarrow> bool \<Rightarrow> fetch_outcome" where
  "fetch_data cache_duration now api db tickers required_fields use_cache =
     (case (if use_cache then cache_loop cache_duration now db required_fields tickers [] []
            else Inr ([], tickers)) of
        Inl e \<Rightarrow> \<lparr>db_after = db, contacted = [], returned = Inl e\<rparr>
      | Inr (result, to_fetch) \<Rightarrow>
          if to_fetch \<noteq> [] then
            (case fetch_from_api api to_fetch [] [] of
               (sent, Inl e) \<Rightarrow> \<lparr>db_after = db, contacted = sent, returned = Inl e\<rparr>
             | (sent, Inr api_data) \<Rightarrow>
                 (case store_loop now required_fields api_data db result of
                    (db', r) \<Rightarrow> \<lparr>db_after = db', contacted = sent, returned = r\<rparr>))
          else \<lparr>db_after = db, contacted = [], returned = Inr result\<rparr>)"

text \<open>The default \<open>required_fields\<close> of \<open>fetch_data\<close>.\<close>

definition default_required_fields :: "string list" where
  "default_required_fields = [''price'', ''shares'', ''fcf'']"

section \<open>Example records\<close>

text \<open>
  The configuration and records of the repository's tests
  (\<open>tests/test_intrinsic_value_calculator.py\<close>, \<open>tests/test_stock_analyzer.py\<close>), and a
  configuration whose discount rate lies below the terminal growth rate.
\<close>

definition example_config :: config where
  "example_config = default_config ''2023-01-01T00:00:00-08:00''"

definition technology_params :: sector_params where
  "technology_params =
     map_of [(''growth_rate'', 0.08), (''pe_ratio'', 25.0), (''discount_rate'', 0.10)]"

definition aapl_record :: pydict where
  "aapl_record =
     [''ticker'' \<mapsto> PStr ''AAPL'', ''price'' \<mapsto> PNum 150, ''shares'' \<mapsto> PNum 1000000000,
      ''fcf'' \<mapsto> PNum 10000000000, ''sector'' \<mapsto> PStr ''Technology'', ''eps'' \<mapsto> PNum 5,
      ''growth_rate'' \<mapsto> PNum 0.10, ''fmp_dcf'' \<mapsto> PNum 160]"

definition msft_record :: pydict where
  "msft_record =
     [''ticker'' \<mapsto> PStr ''MSFT'', ''price'' \<mapsto> PNum 200, ''shares'' \<mapsto> PNum 750000000,
      ''fcf'' \<mapsto> PNone, ''sector'' \<mapsto> PStr ''Technology'', ''eps'' \<mapsto> PNum 6,
      ''growth_rate'' \<mapsto> PNum 0.12, ''fmp_dcf'' \<mapsto> PNum 180]"

definition low_discount_config :: config where
  "low_discount_config =
     \<lparr>sectors = [''Utilities'' \<mapsto>
         map_of [(''growth_rate'', 0.01), (''pe_ratio'', 14.0), (''discount_rate'', 0.01)]],
      seed_mode = ''generate'', seed_value = None, seed_last_used = None,
      last_updated = ''2023-01-01T00:00:00-08:00''\<rparr>"

definition utility_record :: pydict where
  "utility_record =
     [''price'' \<mapsto> PNum 50, ''shares'' \<mapsto> PNum 1, ''fcf'' \<mapsto> PNum 100,
      ''sector'' \<mapsto> PStr ''Utilities'', ''eps'' \<mapsto> PNone]"

definition startup_record :: pydict where
  "startup_record =
     [''price'' \<mapsto> PNum 20, ''shares'' \<mapsto> PNum 1000, ''fcf'' \<mapsto> PNone,
      ''sector'' \<mapsto> PStr ''Space Mining'', ''eps'' \<mapsto> PNum 2, ''growth_rate'' \<mapsto> PNum 0.30]"

definition msft_fetched :: pydict where
  "msft_fetched =
     [''price'' \<mapsto> PNum 200, ''shares'' \<mapsto> PNum 750000000, ''fcf'' \<mapsto> PNone,
      ''sector'' \<mapsto> PStr ''Technology'', ''eps'' \<mapsto> PNum 6]"

text \<open>
  The TSLA record of \<open>tests/test_stock_analyzer.py\<close> and its intrinsic value; a
  \<open>ConfigManager\<close> holding the default configuration; a cache duration of one day in
  microseconds; database rows as \<open>save_stock_data\<close> writes them, one of them with a
  \<open>NULL\<close> EPS; and remote data sources: one that is unreachable, one that answers as in
  \<open>tests/test_data_fetcher.py\<close>, and one whose quote for the ticker \<open>BAD\<close> is the JSON
  body \<open>[null]\<close>.
\<close>

definition tsla_fetched :: pydict where
  "tsla_fetched =
     [''price'' \<mapsto> PNum 250, ''shares'' \<mapsto> PNum 3000000000, ''fcf'' \<mapsto> PNum 5000000000,
      ''sector'' \<mapsto> PStr ''Technology'', ''eps'' \<mapsto> PNum (- 1)]"

definition tsla_value :: real where
  "tsla_value = 30188468695488606 / 921073316796875"

definition initial_manager :: config_manager where
  "initial_manager = \<lparr>config = example_config, saved_file = Some example_config\<rparr>"

definition later :: string where
  "later = ''2023-01-02T00:00:00-08:00''"

definition one_day :: int where
  "one_day = 86400000000"

definition cached_row :: row where
  "cached_row =
     \<lparr>row_price = PNum 150, row_shares = PNum 1000000, row_fcf = PNum 1000000,
      row_sector = PStr ''Technology'', row_eps = PNum 5, row_intrinsic_value = PNone,
      row_score = PNone, row_timestamp = Some 0\<rparr>"

definition cached_db :: database where
  "cached_db = [''AAPL'' \<mapsto> cached_row]"

definition null_eps_row :: row where
  "null_eps_row =
     \<lparr>row_price = PNum 10, row_shares = PNum 1000, row_fcf = PNum 500,
      row_sector = PStr ''Technology'', row_eps = PNone, row_intrinsic_value = PNone,
      row_score = PNone, row_timestamp = Some 0\<rparr>"

definition null_eps_db :: database where
  "null_eps_db = [''XYZ'' \<mapsto> null_eps_row]"

definition null_eps_record :: pydict where
  "null_eps_record = cached_record null_eps_row"

definition offline :: remote where
  "offline = (\<lambda>e ticker. Failed)"

definition good_api :: remote where
  "good_api e ticker =
     (case e of
        Quote \<Rightarrow> Body (PList [PDict [(''symbol'', PStr ticker), (''price'', PNum 150)]])
      | Profile \<Rightarrow> Body (PList [PDict [(''symbol'', PStr ticker),
                     (''sharesOutstanding'', PNum 1000000), (''sector'', PStr ''Technology'')]])
      | CashFlow \<Rightarrow> Body (PList [PDict [(''symbol'', PStr ticker),
                     (''freeCashFlow'', PNum 1000000)]])
      | Income \<Rightarrow> Body (PList [PDict [(''symbol'', PStr ticker), (''eps'', PNum 5)]]))"

definition malformed_api :: remote where
  "malformed_api e ticker =
     (if e = Quote \<and> ticker = ''BAD'' then Body (PList [PNone]) else good_api e ticker)"

definition aapl_fetched :: pydict where
  "aapl_fetched =
     [''price'' \<mapsto> PNum 150, ''shares'' \<mapsto> PNum 1000000, ''fcf'' \<mapsto> PNum 1000000,
      ''sector'' \<mapsto> PStr ''Technology'', ''eps'' \<mapsto> PNum 5]"

section \<open>Basic facts\<close>

lemma bind_Inr_iff: "bind m f = Inr y \<longleftrightarrow> (\<exists>x. m = Inr x \<and> f x = Inr y)"
  by (cases m) (simp_all add: bind_def)

lemma bind_simps: "bind (Inl e) f = Inl e" "bind (Inr x) f = f x"
  by (simp_all add: bind_def)

lemma truthy_num: "num_of v = Some x \<Longrightarrow> truthy v = (x \<noteq> 0)"
  by (cases v) (auto split: if_splits)

lemma opt_val_simps: "opt_val None = PNone" "opt_val (Some x) = PNum x"
  by (simp_all add: opt_val_def)

lemmas valuation_defs =
  get_intrinsic_value_def dcf_estimate_def peg_estimate_def bind_def getitem_def get_def
  get_default_def get_sector_params_def resolved_growth_rate_def resolved_discount_rate_def
  resolved_sector_pe_def dcf_per_share_def peg_intrinsic_def gt_zero_def blend_def opt_val_def
  call_calculate_dcf_def default_config_def default_sectors_def

lemma upt_1_11: "[Suc 0..<11] = [1, 2, 3, 4, 5, 6, 7, 8, 9, 10]"
  by code_simp

section \<open>The valuation engine\<close>

text \<open>The value of \<open>calculate_dcf\<close> in closed form, whenever no division by zero occurs.\<close>

lemma zip_upt_map: "map (\<lambda>(t, cf). cf / c ^ t) (zip xs (map h xs)) = map (\<lambda>t. h t / c ^ t) xs"
  by (induction xs) auto

lemma calculate_dcf_closed:
  assumes "0 < years" "d \<noteq> tg" "d \<noteq> - 1"
  shows "calculate_dcf f g d years tg =
     Inr ((\<Sum>t\<leftarrow>[1..<years + 1]. f * (1 + g) ^ t / (1 + d) ^ t)
          + f * (1 + g) ^ years * (1 + tg) / (d - tg) / (1 + d) ^ years)"
proof -
  have nz: "1 + d \<noteq> 0" using assms(3) by linarith
  have ne: "[1..<years + 1] \<noteq> []" using assms(1) by simp
  have l: "last (map (\<lambda>t. f * (1 + g) ^ t) [1..<years + 1]) = f * (1 + g) ^ years"
    using assms(1) by (simp add: last_map)
  show ?thesis
    unfolding calculate_dcf_def Let_def
    using nz ne assms(2) l
    by (simp add: zip_upt_map list_ex_iff del: upt_Suc)
qed

lemma get_intrinsic_value_split:
  "get_intrinsic_value cfg sd =
     bind (dcf_estimate cfg sd) (\<lambda>d. bind (peg_estimate cfg sd) (\<lambda>p.
       blend [opt_val d, opt_val p, get sd ''fmp_dcf'']))"
  by (auto simp: get_intrinsic_value_def dcf_estimate_def peg_estimate_def bind_def Let_def
      split: sum.splits)

text \<open>
  C1, as stated, fails: with a discount rate of 0.01, below the terminal growth rate 0.02,
  a record with free cash flow 100 and one share still gets a DCF sub-estimate, the
  negative number -9200, and this number is the blended intrinsic value.
\<close>

theorem dcf_below_terminal_growth_counterexample:
  "resolved_discount_rate (the (sectors low_discount_config ''Utilities'')) \<le> 0.02
   \<and> truthy (get utility_record ''fcf'')
   \<and> gt_zero (get utility_record ''shares'') = Inr True
   \<and> dcf_estimate low_discount_config utility_record = Inr (Some (- 9200))
   \<and> get_intrinsic_value low_discount_config utility_record = Inr (Some (- 9200))"
  by (simp add: valuation_defs low_discount_config_def utility_record_def
      calculate_dcf_closed upt_1_11)

text \<open>
  C1 (amended): \<open>get_intrinsic_value\<close> has no guard on the discount rate. For every record
  with a numeric, non-zero free cash flow and numeric shares outstanding above zero,
  and a numeric growth rate, the DCF sub-estimate is computed by \<open>calculate_dcf\<close> and
  included in the blend for every resolved discount rate other than 0.02 and -1, so
  below the terminal growth rate as well as above it. (At 0.02 and at -1 a division by
  zero is raised; the theorem says nothing about these two rates.)
\<close>

theorem dcf_sub_estimate_unguarded:
  assumes "sd ''sector'' = Some sector" and "get_sector_params cfg sector = Inr sdef"
    and "sd ''price'' = Some price" and "sd ''shares'' = Some shares"
    and "num_of (get sd ''fcf'') = Some f" and "f \<noteq> 0"
    and "num_of shares = Some s" and "0 < s"
    and "num_of (resolved_growth_rate sdef sd) = Some g"
    and "resolved_discount_rate sdef \<noteq> 0.02" and "resolved_discount_rate sdef \<noteq> - 1"
  shows "\<exists>total. calculate_dcf f g (resolved_discount_rate sdef) 10 0.02 = Inr total
           \<and> dcf_estimate cfg sd = Inr (Some (total / s))
           \<and> get_intrinsic_value cfg sd =
               bind (peg_estimate cfg sd) (\<lambda>peg.
                 blend [PNum (total / s), opt_val peg, get sd ''fmp_dcf''])"
proof -
  let ?d = "resolved_discount_rate sdef"
  obtain total where t: "calculate_dcf f g ?d 10 0.02 = Inr total"
    using calculate_dcf_closed [of 10 ?d "0.02" f g] assms(10,11) by simp
  have tr: "truthy (get sd ''fcf'')"
    using truthy_num [OF assms(5)] assms(6) by simp
  have dps: "dcf_per_share (get sd ''fcf'') shares (resolved_growth_rate sdef sd) ?d
              = Inr (Some (total / s))"
    using tr t assms(5,7,8,9)
    by (simp add: dcf_per_share_def bind_def gt_zero_def call_calculate_dcf_def)
  have de: "dcf_estimate cfg sd = Inr (Some (total / s))"
    using dps assms(1,2,3,4) by (simp add: dcf_estimate_def bind_def getitem_def)
  have "get_intrinsic_value cfg sd =
          bind (peg_estimate cfg sd) (\<lambda>peg.
            blend [PNum (total / s), opt_val peg, get sd ''fmp_dcf''])"
    by (simp add: get_intrinsic_value_split de bind_def opt_val_simps split: sum.splits)
  with t de show ?thesis by blast
qed

theorem dcf_sub_estimate_unguarded_witness:
  "\<exists>total. calculate_dcf 10000000000 0.10 (resolved_discount_rate technology_params) 10 0.02
              = Inr total
     \<and> dcf_estimate example_config aapl_record = Inr (Some (total / 1000000000))
     \<and> get_intrinsic_value example_config aapl_record =
         bind (peg_estimate example_config aapl_record) (\<lambda>peg.
           blend [PNum (total / 1000000000), opt_val peg, get aapl_record ''fmp_dcf''])"
proof -
  have "get_sector_params example_config (PStr ''Technology'') = Inr technology_params"
    by (simp add: get_sector_params_def example_config_def default_config_def
        default_sectors_def technology_params_def)
  moreover have "resolved_discount_rate technology_params = 0.10"
    by (simp add: resolved_discount_rate_def technology_params_def)
  moreover have "num_of (resolved_growth_rate technology_params aapl_record) = Some 0.10"
    by (simp add: resolved_growth_rate_def get_default_def aapl_record_def)
  ultimately show ?thesis
    using dcf_sub_estimate_unguarded [of aapl_record "PStr ''Technology''" example_config
        technology_params "PNum 150" "PNum 1000000000" 10000000000 1000000000 "0.10"]
    by (simp add: aapl_record_def get_def)
qed

text \<open>The mean of the sub-estimates that are not null, case by case.\<close>

lemma mean_of_non_null_None:
  "mean_of_non_null [d, p, f] = None \<longleftrightarrow> d = None \<and> p = None \<and> f = None"
  by (cases d; cases p; cases f) (simp_all add: mean_of_non_null_def)

lemma mean_of_non_null_table:
  "mean_of_non_null [None, None, None] = None"
  "mean_of_non_null [Some a, None, None] = Some a"
  "mean_of_non_null [None, Some b, None] = Some b"
  "mean_of_non_null [None, None, Some c] = Some c"
  "mean_of_non_null [Some a, Some b, None] = Some ((a + b) / 2)"
  "mean_of_non_null [Some a, None, Some c] = Some ((a + c) / 2)"
  "mean_of_non_null [None, Some b, Some c] = Some ((b + c) / 2)"
  "mean_of_non_null [Some a, Some b, Some c] = Some ((a + b + c) / 3)"
  by (simp_all add: mean_of_non_null_def)

lemma blend_three:
  assumes "estimate_of v f \<or> v \<noteq> PNone \<and> num_of v = None"
  shows "blend [opt_val d, opt_val p, v] =
     (if v \<noteq> PNone \<and> num_of v = None then Inl TypeError else Inr (mean_of_non_null [d, p, f]))"
  using assms
  by (cases d; cases p; cases f)
     (auto simp: blend_def mean_of_non_null_def opt_val_def estimate_of_def Let_def split: if_splits)

text \<open>
  C5: \<open>get_intrinsic_value\<close> returns a result \<open>r\<close> exactly when the DCF and PEG
  sub-estimates are computed without an exception and the externally supplied
  \<open>fmp_dcf\<close> is null or a number; \<open>r\<close> is then the arithmetic mean of exactly the
  sub-estimates that are not null, and \<open>r\<close> is null if and only if all three are null.
\<close>

theorem blend_is_mean:
  "(get_intrinsic_value cfg sd = Inr r) \<longleftrightarrow>
     (\<exists>d p f. dcf_estimate cfg sd = Inr d \<and> peg_estimate cfg sd = Inr p
        \<and> estimate_of (get sd ''fmp_dcf'') f
        \<and> r = mean_of_non_null [d, p, f]
        \<and> (r = None \<longleftrightarrow> d = None \<and> p = None \<and> f = None))"
proof
  assume a: "get_intrinsic_value cfg sd = Inr r"
  let ?v = "get sd ''fmp_dcf''"
  from a obtain d p where d: "dcf_estimate cfg sd = Inr d" and p: "peg_estimate cfg sd = Inr p"
    and b: "blend [opt_val d, opt_val p, ?v] = Inr r"
    by (auto simp: get_intrinsic_value_split bind_def split: sum.splits)
  define f where "f = (if ?v = PNone then None else num_of ?v)"
  have alt: "estimate_of ?v f \<or> ?v \<noteq> PNone \<and> num_of ?v = None"
    by (auto simp: estimate_of_def f_def)
  from blend_three [OF alt, of d p] b
  have ok: "\<not> (?v \<noteq> PNone \<and> num_of ?v = None)" and r: "r = mean_of_non_null [d, p, f]"
    by (auto split: if_splits)
  from ok alt have e: "estimate_of ?v f" by blast
  have n: "r = None \<longleftrightarrow> d = None \<and> p = None \<and> f = None"
    unfolding r by (rule mean_of_non_null_None)
  show "\<exists>d p f. dcf_estimate cfg sd = Inr d \<and> peg_estimate cfg sd = Inr p
        \<and> estimate_of (get sd ''fmp_dcf'') f
        \<and> r = mean_of_non_null [d, p, f]
        \<and> (r = None \<longleftrightarrow> d = None \<and> p = None \<and> f = None)"
    using d p e r n by (intro exI conjI)
next
  assume "\<exists>d p f. dcf_estimate cfg sd = Inr d \<and> peg_estimate cfg sd = Inr p
        \<and> estimate_of (get sd ''fmp_dcf'') f
        \<and> r = mean_of_non_null [d, p, f]
        \<and> (r = None \<longleftrightarrow> d = None \<and> p = None \<and> f = None)"
  then obtain d p f where d: "dcf_estimate cfg sd = Inr d" and p: "peg_estimate cfg sd = Inr p"
    and e: "estimate_of (get sd ''fmp_dcf'') f" and r: "r = mean_of_non_null [d, p, f]"
    by blast
  from e have ok: "\<not> (get sd ''fmp_dcf'' \<noteq> PNone \<and> num_of (get sd ''fmp_dcf'') = None)"
    by (auto simp: estimate_of_def split: if_splits)
  from e have "estimate_of (get sd ''fmp_dcf'') f \<or>
      get sd ''fmp_dcf'' \<noteq> PNone \<and> num_of (get sd ''fmp_dcf'') = None" by simp
  from blend_three [OF this, of d p] ok r d p
  show "get_intrinsic_value cfg sd = Inr r"
    by (simp add: get_intrinsic_value_split bind_def)
qed

theorem blend_is_mean_witness:
  "get_intrinsic_value example_config msft_record = Inr (Some 202.5)
   \<and> (\<exists>d p f. dcf_estimate example_config msft_record = Inr d
        \<and> peg_estimate example_config msft_record = Inr p
        \<and> estimate_of (get msft_record ''fmp_dcf'') f
        \<and> Some 202.5 = mean_of_non_null [d, p, f]
        \<and> (Some (202.5::real) = None \<longleftrightarrow> d = None \<and> p = None \<and> f = None))"
proof -
  have "get_intrinsic_value example_config msft_record = Inr (Some 202.5)"
    by (simp add: valuation_defs example_config_def msft_record_def)
  with blend_is_mean [of example_config msft_record "Some 202.5"] show ?thesis
    by blast
qed

text \<open>
  C10: for a record with EPS above zero whose sector has no entry in the sector-defaults
  configuration, and whose growth rate is missing (then 0.05 is used) or a number above
  zero, the PEG sub-estimate is the fallback P/E 15.0 times EPS, whatever the growth
  rate: the sector growth rate falls back to the record's own, and the ratio is 1.
\<close>

theorem peg_unknown_sector_cancels:
  assumes "sd ''sector'' = Some (PStr s)" and "sectors cfg s = None"
    and "sd ''price'' = Some price" and "sd ''shares'' = Some shares"
    and "num_of (get sd ''eps'') = Some e" and "0 < e"
    and "sd ''growth_rate'' = None \<or> (\<exists>v g. sd ''growth_rate'' = Some v \<and> num_of v = Some g \<and> 0 < g)"
  shows "peg_estimate cfg sd = Inr (Some (15.0 * e))"
proof -
  have sp: "get_sector_params cfg (PStr s) = Inr Map.empty"
    using assms(2) by (simp add: get_sector_params_def)
  have "\<exists>g. num_of (resolved_growth_rate Map.empty sd) = Some g \<and> 0 < g"
  proof (cases "sd ''growth_rate''")
    case None
    then have "num_of (resolved_growth_rate Map.empty sd) = Some 0.05"
      by (simp add: resolved_growth_rate_def get_default_def)
    moreover have "(0::real) < 0.05" by simp
    ultimately show ?thesis by blast
  next
    case (Some v)
    with assms(7) show ?thesis
      by (auto simp: resolved_growth_rate_def get_default_def)
  qed
  then obtain g where g: "num_of (resolved_growth_rate Map.empty sd) = Some g" and gp: "0 < g"
    by blast
  have tr: "truthy (get sd ''eps'')"
    using truthy_num [OF assms(5)] assms(6) by simp
  have "peg_intrinsic Map.empty (get sd ''eps'') (resolved_growth_rate Map.empty sd)
          (resolved_sector_pe Map.empty) = Inr (Some (15.0 * e))"
    using tr g gp assms(5,6)
    by (simp add: peg_intrinsic_def bind_def gt_zero_def resolved_sector_pe_def)
  then show ?thesis
    using sp assms(1,3,4) by (simp add: peg_estimate_def bind_def getitem_def)
qed

theorem peg_unknown_sector_cancels_witness:
  "sectors example_config ''Space Mining'' = None
   \<and> peg_estimate example_config startup_record = Inr (Some (15.0 * 2))"
proof -
  have s: "sectors example_config ''Space Mining'' = None"
    by (simp add: example_config_def default_config_def default_sectors_def)
  have g: "startup_record ''growth_rate'' = Some (PNum 0.30)"
    by (simp add: startup_record_def)
  have "num_of (PNum 0.30) = Some 0.30 \<and> (0::real) < 0.30" by simp
  with g have h: "startup_record ''growth_rate'' = None
      \<or> (\<exists>v g. startup_record ''growth_rate'' = Some v \<and> num_of v = Some g \<and> 0 < g)"
    by blast
  have "peg_estimate example_config startup_record = Inr (Some (15.0 * 2))"
    by (rule peg_unknown_sector_cancels [of startup_record "''Space Mining''" example_config
          "PNum 20" "PNum 1000" 2, OF _ s _ _ _ _ h])
       (simp_all add: startup_record_def get_def)
  with s show ?thesis by simp
qed

section \<open>The analyzer\<close>

lemma traverse_Inr:
  "traverse f xs = Inr ys \<Longrightarrow> list_all2 (\<lambda>x y. f x = Inr y) xs ys"
proof (induction xs arbitrary: ys)
  case Nil
  then show ?case by simp
next
  case (Cons x xs)
  then show ?case by (auto simp: bind_Inr_iff)
qed

lemma traverse_member:
  "traverse f xs = Inr ys \<Longrightarrow> y \<in> set ys \<Longrightarrow> \<exists>x \<in> set xs. f x = Inr y"
proof (induction xs arbitrary: ys)
  case Nil
  then show ?case by simp
next
  case (Cons x xs)
  then show ?case by (fastforce simp: bind_Inr_iff)
qed

lemma set_sorted_by_score: "set (sorted_by_score stocks) = set stocks"
  by (simp add: sorted_by_score_def)

lemma map_entry_member:
  "(s, l) \<in> set (AList.map_entry k f g) \<Longrightarrow> (s, l) \<in> set g \<or> (\<exists>l0. (s, l0) \<in> set g \<and> l = f l0)"
  by (induction g) (auto split: if_splits)

lemma update_empty_member:
  "(s, l) \<in> set (AList.update k [] g) \<Longrightarrow> (s, l) \<in> set g \<or> l = []"
  by (induction g) (auto split: if_splits)

lemma initial_groups_empty:
  "(s, l) \<in> set (foldl (\<lambda>g sector. AList.update sector [] g) g0 prefs)
     \<Longrightarrow> (s, l) \<in> set g0 \<or> l = []"
proof (induction prefs arbitrary: g0)
  case Nil
  then show ?case by simp
next
  case (Cons p prefs)
  from Cons.IH [OF Cons.prems [simplified]] show ?case
    by (auto dest: update_empty_member)
qed

lemma group_stock_member:
  "(s, l) \<in> set (group_stock g st) \<Longrightarrow> x \<in> set l
     \<Longrightarrow> x = st \<or> (\<exists>l0. (s, l0) \<in> set g \<and> x \<in> set l0)"
  by (auto simp: group_stock_def split: pyval.splits if_splits dest!: map_entry_member)

lemma grouped_member:
  "(s, l) \<in> set (foldl group_stock g outs) \<Longrightarrow> x \<in> set l
     \<Longrightarrow> x \<in> set outs \<or> (\<exists>l0. (s, l0) \<in> set g \<and> x \<in> set l0)"
proof (induction outs arbitrary: g)
  case Nil
  then show ?case by auto
next
  case (Cons st outs)
  from Cons.IH [of "group_stock g st"] Cons.prems
  have "x \<in> set outs \<or> (\<exists>l0. (s, l0) \<in> set (group_stock g st) \<and> x \<in> set l0)"
    by simp
  then show ?case
    by (auto dest: group_stock_member)
qed

lemma group_by_sector_member:
  assumes "(s, l) \<in> set (group_by_sector prefs outs)" and "x \<in> set l"
  shows "x \<in> set outs"
proof -
  from assms obtain l' where
    m: "(s, l') \<in> set (foldl group_stock
             (foldl (\<lambda>g sector. AList.update sector [] g) [] prefs) outs)"
    and x: "x \<in> set l'"
    by (auto simp: group_by_sector_def Let_def set_sorted_by_score)
  from grouped_member [OF m x] show ?thesis
    by (auto dest: initial_groups_empty)
qed

lemma analyze_stocks_Inr:
  assumes "analyze_stocks cfg stock_data fp prefs = Inr result"
  shows "\<exists>outs. output_stocks cfg stock_data fp = Inr outs
           \<and> (result = Ranked (sorted_by_score outs)
                \<or> (\<exists>ps. result = Grouped (group_by_sector ps outs)))"
proof -
  from assms obtain outs where outs: "output_stocks cfg stock_data fp = Inr outs"
    by (cases "output_stocks cfg stock_data fp") (simp_all add: analyze_stocks_def bind_def)
  show ?thesis
  proof (cases prefs)
    case None
    with assms outs show ?thesis by (simp add: analyze_stocks_def bind_def)
  next
    case (Some ps)
    with assms outs show ?thesis
      by (cases ps) (auto simp: analyze_stocks_def bind_def)
  qed
qed

lemma stocks_of_analysis:
  assumes "analyze_stocks cfg stock_data fp prefs = Inr result" and "x \<in> stocks_of result"
  shows "\<exists>outs. output_stocks cfg stock_data fp = Inr outs \<and> x \<in> set outs"
  using analyze_stocks_Inr [OF assms(1)] assms(2)
  by (auto simp: set_sorted_by_score dest: group_by_sector_member)

lemma output_stocks_member:
  assumes "output_stocks cfg stock_data fp = Inr outs" and "x \<in> set outs"
  shows "\<exists>t d pe iv. (t, d) \<in> set stock_data \<and> derived_pe d = Inr pe
           \<and> get_intrinsic_value cfg d = Inr iv
           \<and> passes_filters \<lparr>st_data = d, st_ticker = t, st_pe_ratio = pe, st_intrinsic_value = iv\<rparr> fp
           \<and> score_stock \<lparr>st_data = d, st_ticker = t, st_pe_ratio = pe, st_intrinsic_value = iv\<rparr> = Inr x"
proof -
  from assms(1) obtain stock_list valued where
    a: "traverse (\<lambda>(t, d). bind (derived_pe d) (\<lambda>pe. Inr (t, d, pe))) stock_data = Inr stock_list"
    and b: "traverse (\<lambda>(t, d, pe). bind (get_intrinsic_value cfg d) (\<lambda>iv.
             Inr \<lparr>st_data = d, st_ticker = t, st_pe_ratio = pe, st_intrinsic_value = iv\<rparr>)) stock_list
            = Inr valued"
    and c: "traverse score_stock (filter (\<lambda>st. passes_filters st fp) valued) = Inr outs"
    by (auto simp: output_stocks_def bind_Inr_iff)
  from traverse_member [OF c assms(2)] obtain st where
    st: "st \<in> set valued" "passes_filters st fp" "score_stock st = Inr x"
    by auto
  from traverse_member [OF b st(1)] obtain t d pe iv where
    tdp: "(t, d, pe) \<in> set stock_list" "get_intrinsic_value cfg d = Inr iv"
      "st = \<lparr>st_data = d, st_ticker = t, st_pe_ratio = pe, st_intrinsic_value = iv\<rparr>"
    by (auto simp: bind_Inr_iff)
  from traverse_member [OF a tdp(1)] have "(t, d) \<in> set stock_data" "derived_pe d = Inr pe"
    by (auto simp: bind_Inr_iff)
  with st tdp show ?thesis by blast
qed

lemma passes_filters_positive:
  "passes_filters (st::stock) fp \<Longrightarrow> \<exists>v. st_intrinsic_value st = Some v \<and> 0 < v"
  by (cases "st_intrinsic_value st") (auto simp: passes_filters_def split: if_splits)

lemma score_stock_Inr:
  assumes "score_stock st = Inr x" and "st_intrinsic_value st = Some v"
  shows "\<exists>p. st_data st ''price'' = Some (out_price x) \<and> num_of (out_price x) = Some p
           \<and> out_score x = (if 0 < p then v / p else 0)
           \<and> out_intrinsic_value x = Some v \<and> out_ticker x = st_ticker st"
proof (cases "st_data st ''price''")
  case None
  with assms(1) show ?thesis
    by (simp add: score_stock_def getitem_def bind_def)
next
  case price: (Some price)
  show ?thesis
  proof (cases "num_of price")
    case None
    with assms(1) price show ?thesis
      by (simp add: score_stock_def getitem_def bind_def gt_zero_def)
  next
    case p: (Some p)
    show ?thesis
    proof (cases "st_data st ''sector''")
      case None
      with assms price p have False
        by (cases "0 < p") (simp_all add: score_stock_def getitem_def bind_def gt_zero_def)
      then show ?thesis ..
    next
      case (Some sector)
      with assms price p have
        "x = \<lparr>out_ticker = st_ticker st, out_score = (if 0 < p then v / p else 0),
              out_intrinsic_value = Some v, out_price = price, out_sector = sector\<rparr>"
        by (cases "0 < p") (simp_all add: score_stock_def getitem_def bind_def gt_zero_def)
      with price p show ?thesis by simp
    qed
  qed
qed

text \<open>
  C6: a stock whose intrinsic value is null or not above zero passes the filter under no
  filter settings; and every stock in a result of \<open>analyze_stocks\<close>, ranked or grouped,
  comes from a fetched record whose intrinsic value \<open>v\<close> is above zero, and its score is
  \<open>v / price\<close> when the price is above zero and 0 otherwise.
\<close>

theorem score_and_value_filter:
  "(\<forall>(st::stock) fp. (st_intrinsic_value st = None \<or> (\<exists>v. st_intrinsic_value st = Some v \<and> v \<le> 0))
        \<longrightarrow> \<not> passes_filters st fp)
   \<and> (analyze_stocks cfg stock_data fp prefs = Inr result \<longrightarrow>
        (\<forall>x \<in> stocks_of result. \<exists>t d v p.
            (t, d) \<in> set stock_data \<and> out_ticker x = t
          \<and> get_intrinsic_value cfg d = Inr (Some v) \<and> 0 < v \<and> out_intrinsic_value x = Some v
          \<and> d ''price'' = Some (out_price x) \<and> num_of (out_price x) = Some p
          \<and> out_score x = (if 0 < p then v / p else 0)))"
proof (intro conjI allI impI ballI)
  fix st :: stock and fp
  assume "st_intrinsic_value st = None \<or> (\<exists>v. st_intrinsic_value st = Some v \<and> v \<le> 0)"
  then show "\<not> passes_filters st fp"
    by (auto simp: passes_filters_def)
next
  fix x
  assume a: "analyze_stocks cfg stock_data fp prefs = Inr result" and x: "x \<in> stocks_of result"
  from stocks_of_analysis [OF a x] obtain outs where
    outs: "output_stocks cfg stock_data fp = Inr outs" "x \<in> set outs" by blast
  from output_stocks_member [OF outs] obtain t d pe iv where
    m: "(t, d) \<in> set stock_data" "get_intrinsic_value cfg d = Inr iv"
      "passes_filters \<lparr>st_data = d, st_ticker = t, st_pe_ratio = pe, st_intrinsic_value = iv\<rparr> fp"
      "score_stock \<lparr>st_data = d, st_ticker = t, st_pe_ratio = pe, st_intrinsic_value = iv\<rparr> = Inr x"
    by blast
  from passes_filters_positive [OF m(3)] obtain v where v: "iv = Some v" "0 < v" by auto
  have "st_intrinsic_value \<lparr>st_data = d, st_ticker = t, st_pe_ratio = pe,
          st_intrinsic_value = iv\<rparr> = Some v"
    using v(1) by simp
  from score_stock_Inr [OF m(4) this] obtain p where
    p: "d ''price'' = Some (out_price x)" "num_of (out_price x) = Some p"
    "out_score x = (if 0 < p then v / p else 0)" "out_intrinsic_value x = Some v" "out_ticker x = t"
    by auto
  have g: "get_intrinsic_value cfg d = Inr (Some v)" using m(2) v(1) by simp
  show "\<exists>t d v p.
            (t, d) \<in> set stock_data \<and> out_ticker x = t
          \<and> get_intrinsic_value cfg d = Inr (Some v) \<and> 0 < v \<and> out_intrinsic_value x = Some v
          \<and> d ''price'' = Some (out_price x) \<and> num_of (out_price x) = Some p
          \<and> out_score x = (if 0 < p then v / p else 0)"
    using m(1) p g v(2) by (intro exI [of _ t] exI [of _ d] exI [of _ v] exI [of _ p]) simp
qed

theorem score_and_value_filter_witness:
  "analyze_stocks example_config [(''MSFT'', msft_fetched)]
      \<lparr>exclude_negative_pe = True, max_pe = Some 40\<rparr> None
    = Inr (Ranked [\<lparr>out_ticker = ''MSFT'', out_score = 0.75, out_intrinsic_value = Some 150,
                    out_price = PNum 200, out_sector = PStr ''Technology''\<rparr>])
   \<and> (\<exists>t d v p. (t, d) \<in> set [(''MSFT'', msft_fetched)]
        \<and> get_intrinsic_value example_config d = Inr (Some v) \<and> 0 < v
        \<and> d ''price'' = Some (PNum 200) \<and> num_of (PNum 200) = Some p
        \<and> (0.75::real) = (if 0 < p then v / p else 0))"
proof -
  let ?x = "\<lparr>out_ticker = ''MSFT'', out_score = 0.75, out_intrinsic_value = Some 150,
              out_price = PNum 200, out_sector = PStr ''Technology''\<rparr>"
  have iv: "get_intrinsic_value example_config msft_fetched = Inr (Some 150)"
    by (simp add: valuation_defs example_config_def msft_fetched_def)
  have pe: "derived_pe msft_fetched = Inr (Finite (200 / 6))"
    by (simp add: derived_pe_def msft_fetched_def bind_def gt_zero_def get_default_def
        getitem_def get_def)
  have a: "analyze_stocks example_config [(''MSFT'', msft_fetched)]
      \<lparr>exclude_negative_pe = True, max_pe = Some 40\<rparr> None = Inr (Ranked [?x])"
  proof -
    have p: "msft_fetched ''price'' = Some (PNum 200)"
      and s: "msft_fetched ''sector'' = Some (PStr ''Technology'')"
      by (simp_all add: msft_fetched_def)
    show ?thesis
      by (simp add: analyze_stocks_def output_stocks_def iv pe bind_simps passes_filters_def
          AMEX_TICKERS_def score_stock_def sorted_by_score_def getitem_def gt_zero_def p s)
  qed
  from score_and_value_filter [of example_config "[(''MSFT'', msft_fetched)]"
      "\<lparr>exclude_negative_pe = True, max_pe = Some 40\<rparr>" None "Ranked [?x]"] a
  show ?thesis by simp
qed

lemma tsla_dcf:
  "calculate_dcf 5000000000 0.08 0.10 10 0.02 = Inr (tsla_value * 3000000000)"
  by (simp add: calculate_dcf_closed upt_1_11 power_divide tsla_value_def)

lemma tsla_iv: "get_intrinsic_value example_config tsla_fetched = Inr (Some tsla_value)"
  by (simp add: valuation_defs example_config_def tsla_fetched_def tsla_dcf [simplified])

lemma tsla_pe: "derived_pe tsla_fetched = Inr NegInf"
  by (simp add: derived_pe_def tsla_fetched_def bind_simps gt_zero_def get_default_def)

text \<open>
  C2, as stated, fails on both filters. The TSLA record of the tests has EPS -1, so its
  derived P/E is the sentinel. With \<open>max_pe = 30\<close> and no other filter the ticker is kept:
  \<open>-inf > 30\<close> is false. With \<open>exclude_negative_pe\<close> it is dropped: \<open>-inf <= 0\<close> is true and
  TSLA is not in the exemption list.
\<close>

theorem sentinel_filters_counterexample:
  "derived_pe tsla_fetched = Inr NegInf
   \<and> analyze_stocks example_config [(''TSLA'', tsla_fetched)]
        \<lparr>exclude_negative_pe = False, max_pe = Some 30\<rparr> None
      = Inr (Ranked [\<lparr>out_ticker = ''TSLA'', out_score = tsla_value / 250,
                      out_intrinsic_value = Some tsla_value, out_price = PNum 250,
                      out_sector = PStr ''Technology''\<rparr>])
   \<and> ''TSLA'' \<notin> AMEX_TICKERS
   \<and> analyze_stocks example_config [(''TSLA'', tsla_fetched)]
        \<lparr>exclude_negative_pe = True, max_pe = None\<rparr> None
      = Inr (Ranked [])"
proof -
  have p: "tsla_fetched ''price'' = Some (PNum 250)"
    and s: "tsla_fetched ''sector'' = Some (PStr ''Technology'')"
    by (simp_all add: tsla_fetched_def)
  have v: "0 < tsla_value" by (simp add: tsla_value_def)
  show ?thesis
    using v
    by (simp add: analyze_stocks_def output_stocks_def tsla_iv tsla_pe bind_simps
        passes_filters_def AMEX_TICKERS_def score_stock_def sorted_by_score_def getitem_def
        gt_zero_def p s)
qed

text \<open>
  C2 (amended): for every analyzed record whose EPS key is missing or holds a number that
  is not above zero, the derived P/E is the negative-infinity sentinel; a stock with the
  sentinel passes the filters exactly when its intrinsic value is above zero and, if
  \<open>exclude_negative_pe\<close> is set, its ticker is in the exemption list \<open>AMEX_TICKERS\<close>.
  So no \<open>max_pe\<close> bound ever drops it, and \<open>exclude_negative_pe\<close> drops it unless it is
  exempted by its symbol.
\<close>

theorem negative_infinity_sentinel_filters:
  assumes "d ''eps'' = None \<or> (\<exists>v e. d ''eps'' = Some v \<and> num_of v = Some e \<and> e \<le> 0)"
  shows "derived_pe d = Inr NegInf
    \<and> (\<forall>t iv fp.
          passes_filters \<lparr>st_data = d, st_ticker = t, st_pe_ratio = NegInf,
                          st_intrinsic_value = iv\<rparr> fp
          \<longleftrightarrow> (\<exists>v. iv = Some v \<and> 0 < v) \<and> (exclude_negative_pe fp \<longrightarrow> t \<in> AMEX_TICKERS))"
proof
  from assms show "derived_pe d = Inr NegInf"
    by (auto simp: derived_pe_def bind_simps gt_zero_def get_default_def)
next
  show "\<forall>t iv fp.
          passes_filters \<lparr>st_data = d, st_ticker = t, st_pe_ratio = NegInf,
                          st_intrinsic_value = iv\<rparr> fp
          \<longleftrightarrow> (\<exists>v. iv = Some v \<and> 0 < v) \<and> (exclude_negative_pe fp \<longrightarrow> t \<in> AMEX_TICKERS)"
  proof (intro allI)
    fix t iv fp
    show "passes_filters \<lparr>st_data = d, st_ticker = t, st_pe_ratio = NegInf,
                          st_intrinsic_value = iv\<rparr> fp
          \<longleftrightarrow> (\<exists>v. iv = Some v \<and> 0 < v) \<and> (exclude_negative_pe fp \<longrightarrow> t \<in> AMEX_TICKERS)"
      by (cases iv; cases "max_pe fp") (auto simp: passes_filters_def)
  qed
qed

theorem negative_infinity_sentinel_filters_witness:
  "tsla_fetched ''eps'' = Some (PNum (- 1))
   \<and> derived_pe tsla_fetched = Inr NegInf
   \<and> passes_filters \<lparr>st_data = tsla_fetched, st_ticker = ''TSLA'', st_pe_ratio = NegInf,
                      st_intrinsic_value = Some tsla_value\<rparr>
        \<lparr>exclude_negative_pe = False, max_pe = Some 30\<rparr>
   \<and> \<not> passes_filters \<lparr>st_data = tsla_fetched, st_ticker = ''TSLA'', st_pe_ratio = NegInf,
                        st_intrinsic_value = Some tsla_value\<rparr>
        \<lparr>exclude_negative_pe = True, max_pe = Some 30\<rparr>"
proof -
  have e: "tsla_fetched ''eps'' = Some (PNum (- 1))" by (simp add: tsla_fetched_def)
  have "num_of (PNum (- 1)) = Some (- 1) \<and> (- 1::real) \<le> 0" by simp
  with e have h: "tsla_fetched ''eps'' = None
      \<or> (\<exists>v e. tsla_fetched ''eps'' = Some v \<and> num_of v = Some e \<and> e \<le> 0)"
    by blast
  have v: "0 < tsla_value" by (simp add: tsla_value_def)
  from negative_infinity_sentinel_filters [of tsla_fetched] h e v show ?thesis
    by (simp add: AMEX_TICKERS_def)
qed

text \<open>
  C4 fails on the code: \<open>fetch_data\<close> returns every record with the key \<open>eps\<close>, holding
  \<open>None\<close> when the cached column is \<open>NULL\<close> (or the income statement has no \<open>eps\<close>), so
  \<open>data.get('eps', 0)\<close> is \<open>None\<close> and \<open>None > 0\<close> raises \<open>TypeError\<close>, which leaves
  \<open>analyze_stocks\<close>. Here the record comes from a fresh cached row.
\<close>

theorem null_eps_raises_type_error:
  "returned (fetch_data one_day 1000 offline null_eps_db [''XYZ''] default_required_fields True)
     = Inr [(''XYZ'', null_eps_record)]
   \<and> null_eps_record ''eps'' = Some PNone
   \<and> derived_pe null_eps_record = Inl TypeError
   \<and> analyze_stocks example_config [(''XYZ'', null_eps_record)]
        \<lparr>exclude_negative_pe = False, max_pe = None\<rparr> None = Inl TypeError"
proof -
  have e: "null_eps_record ''eps'' = Some PNone"
    by (simp add: null_eps_record_def cached_record_def null_eps_row_def)
  have f: "returned (fetch_data one_day 1000 offline null_eps_db [''XYZ'']
             default_required_fields True) = Inr [(''XYZ'', null_eps_record)]"
    by (simp add: fetch_data_def get_cached_data_def null_eps_db_def row_has_def
        default_required_fields_def is_cache_valid_def bind_simps one_day_def
        null_eps_record_def null_eps_row_def)
  have p: "derived_pe null_eps_record = Inl TypeError"
    by (simp add: derived_pe_def get_default_def e gt_zero_def bind_simps)
  have a: "analyze_stocks example_config [(''XYZ'', null_eps_record)]
        \<lparr>exclude_negative_pe = False, max_pe = None\<rparr> None = Inl TypeError"
    by (simp add: analyze_stocks_def output_stocks_def p bind_simps)
  from e f p a show ?thesis by simp
qed

section \<open>Configuration updates\<close>

text \<open>
  C3 fails on the code for sector parameters: \<open>set_sector_params\<close> adds the sector entry
  and stores each value before it validates the next one. A valid growth rate given
  together with an invalid P/E ratio is stored although the call raises, and an
  invalid update of an unknown sector leaves an empty entry for it behind.
\<close>

theorem failed_update_changes_store:
  "snd (set_sector_params later initial_manager ''Technology'' (Some 0.5) (Some (- 1)) None)
     = Some (ValueError ''P/E ratio must be positive.'')
   \<and> the (sectors (config initial_manager) ''Technology'') ''growth_rate'' = Some 0.08
   \<and> the (sectors (config (fst (set_sector_params later initial_manager ''Technology''
             (Some 0.5) (Some (- 1)) None))) ''Technology'') ''growth_rate'' = Some 0.5
   \<and> snd (set_sector_params later initial_manager ''Crypto'' (Some 1.5) None None)
     = Some (ValueError ''Growth rate must be between 0 and 1.'')
   \<and> sectors (config initial_manager) ''Crypto'' = None
   \<and> sectors (config (fst (set_sector_params later initial_manager ''Crypto''
             (Some 1.5) None None))) ''Crypto'' = Some Map.empty"
  by (simp add: set_sector_params_def initial_manager_def example_config_def default_config_def
      default_sectors_def set_param_def Let_def dom_def)

text \<open>
  What does hold: an invalid value makes \<open>set_sector_params\<close> raise a \<open>ValueError\<close>
  without writing the file, and an unknown seed mode makes \<open>set_random_seed_mode\<close> raise
  and leaves the whole state as it was.
\<close>

lemma invalid_sector_params_raise:
  assumes "(\<exists>g. growth_rate = Some g \<and> \<not> (0 \<le> g \<and> g \<le> 1))
           \<or> (\<exists>p. pe_ratio = Some p \<and> p \<le> 0)
           \<or> (\<exists>d. discount_rate = Some d \<and> \<not> (0 \<le> d \<and> d \<le> 1))"
  shows "\<exists>msg. snd (set_sector_params ts cm sector growth_rate pe_ratio discount_rate)
               = Some (ValueError msg)
           \<and> saved_file (fst (set_sector_params ts cm sector growth_rate pe_ratio discount_rate))
               = saved_file cm"
  using assms
  by (cases growth_rate; cases pe_ratio; cases discount_rate)
     (auto simp: set_sector_params_def Let_def set_param_def)

lemma unknown_seed_mode_unchanged:
  assumes "mode \<notin> {''reuse'', ''generate'', ''specify''}"
  shows "set_random_seed_mode ts cm mode val =
           (cm, Some (ValueError ''Invalid mode. Use 'reuse', 'generate', or 'specify'.''))"
  using assms by (simp add: set_random_seed_mode_def)

section \<open>The cached fetcher\<close>

lemma cache_loop_Cons:
  assumes "cache_loop cd now db rf (ticker # tickers) result to_fetch = Inr out"
  shows "(cache_loop cd now db rf tickers result (to_fetch @ [ticker]) = Inr out
            \<and> \<not> (\<exists>r ts. db ticker = Some r \<and> list_all (row_has r) rf
                    \<and> row_timestamp r = Some ts \<and> now - ts < cd))
         \<or> (\<exists>r ts. db ticker = Some r \<and> list_all (row_has r) rf
                \<and> row_timestamp r = Some ts \<and> now - ts < cd
                \<and> cache_loop cd now db rf tickers
                     (AList.update ticker (cached_record r) result) to_fetch = Inr out)"
proof (cases "db ticker")
  case None
  with assms show ?thesis by (simp add: get_cached_data_def)
next
  case (Some r)
  show ?thesis
  proof (cases "list_all (row_has r) rf")
    case False
    with assms Some show ?thesis by (simp add: get_cached_data_def)
  next
    case True
    show ?thesis
    proof (cases "row_timestamp r")
      case None
      with assms Some True show ?thesis
        by (simp add: get_cached_data_def is_cache_valid_def bind_simps)
    next
      case ts: (Some ts)
      with assms Some True show ?thesis
        by (cases "now - ts < cd")
           (simp_all add: get_cached_data_def is_cache_valid_def bind_simps)
    qed
  qed
qed

lemma cache_loop_fresh:
  assumes "db t = Some r" and "list_all (row_has r) rf" and "row_timestamp r = Some ts"
    and "now - ts < cd"
  shows "cache_loop cd now db rf tickers result to_fetch = Inr (result', to_fetch')
     \<Longrightarrow> (t \<in> set to_fetch' \<longrightarrow> t \<in> set to_fetch)
         \<and> map_of result' t = (if t \<in> set tickers then Some (cached_record r) else map_of result t)"
proof (induction tickers arbitrary: result to_fetch)
  case Nil
  then show ?case by simp
next
  case (Cons ticker tickers)
  from cache_loop_Cons [OF Cons.prems] show ?case
  proof (elim disjE conjE exE)
    assume a: "cache_loop cd now db rf tickers result (to_fetch @ [ticker]) = Inr (result', to_fetch')"
      and n: "\<not> (\<exists>r ts. db ticker = Some r \<and> list_all (row_has r) rf
                    \<and> row_timestamp r = Some ts \<and> now - ts < cd)"
    from n assms have "ticker \<noteq> t" by blast
    with Cons.IH [OF a] show ?thesis by auto
  next
    fix r' ts'
    assume f: "db ticker = Some r'" "list_all (row_has r') rf" "row_timestamp r' = Some ts'"
      and a: "cache_loop cd now db rf tickers
                (AList.update ticker (cached_record r') result) to_fetch = Inr (result', to_fetch')"
    from Cons.IH [OF a] f assms show ?thesis
      by (auto simp: update_conv')
  qed
qed

lemma cache_loop_stale:
  assumes "db t = Some r" and "row_timestamp r = Some ts" and "\<not> now - ts < cd"
  shows "cache_loop cd now db rf tickers result to_fetch = Inr (result', to_fetch')
     \<Longrightarrow> t \<in> set tickers \<or> t \<in> set to_fetch \<Longrightarrow> t \<in> set to_fetch'"
proof (induction tickers arbitrary: result to_fetch)
  case Nil
  then show ?case by simp
next
  case (Cons ticker tickers)
  from cache_loop_Cons [OF Cons.prems(1)] show ?case
  proof (elim disjE conjE exE)
    assume a: "cache_loop cd now db rf tickers result (to_fetch @ [ticker]) = Inr (result', to_fetch')"
    from Cons.prems(2) have "t \<in> set tickers \<or> t \<in> set (to_fetch @ [ticker])" by auto
    from Cons.IH [OF a this] show ?thesis .
  next
    fix r' ts'
    assume f: "db ticker = Some r'" "row_timestamp r' = Some ts'" "now - ts' < cd"
      and a: "cache_loop cd now db rf tickers
                (AList.update ticker (cached_record r') result) to_fetch = Inr (result', to_fetch')"
    from f assms have "ticker \<noteq> t" by auto
    with Cons.prems(2) have "t \<in> set tickers \<or> t \<in> set to_fetch" by auto
    from Cons.IH [OF a this] show ?thesis .
  qed
qed

lemma cache_loop_stale_miss:
  assumes "db t = Some r" and "row_timestamp r = Some ts" and "\<not> now - ts < cd"
  shows "cache_loop cd now db rf tickers result to_fetch = Inr (result', to_fetch')
     \<Longrightarrow> map_of result' t = map_of result t"
proof (induction tickers arbitrary: result to_fetch)
  case Nil
  then show ?case by simp
next
  case (Cons ticker tickers)
  from cache_loop_Cons [OF Cons.prems(1)] show ?case
  proof (elim disjE conjE exE)
    assume "cache_loop cd now db rf tickers result (to_fetch @ [ticker]) = Inr (result', to_fetch')"
    from Cons.IH [OF this] show ?thesis .
  next
    fix r' ts'
    assume f: "db ticker = Some r'" "row_timestamp r' = Some ts'" "now - ts' < cd"
      and a: "cache_loop cd now db rf tickers
                (AList.update ticker (cached_record r') result) to_fetch = Inr (result', to_fetch')"
    from f assms have "ticker \<noteq> t" by auto
    with Cons.IH [OF a] show ?thesis by (simp add: update_conv')
  qed
qed

lemma cache_loop_all_fresh:
  assumes "\<forall>t \<in> set tickers. \<exists>r ts. db t = Some r \<and> list_all (row_has r) rf
              \<and> row_timestamp r = Some ts \<and> now - ts < cd"
  shows "\<exists>result'. cache_loop cd now db rf tickers result to_fetch = Inr (result', to_fetch)"
  using assms
proof (induction tickers arbitrary: result)
  case Nil
  then show ?case by simp
next
  case (Cons ticker tickers)
  from Cons.prems obtain r ts where f: "db ticker = Some r" "list_all (row_has r) rf"
    "row_timestamp r = Some ts" "now - ts < cd"
    by auto
  from Cons.prems have "\<forall>t \<in> set tickers. \<exists>r ts. db t = Some r \<and> list_all (row_has r) rf
              \<and> row_timestamp r = Some ts \<and> now - ts < cd" by simp
  from Cons.IH [OF this, of "AList.update ticker (cached_record r) result"] f
  show ?case
    by (simp add: get_cached_data_def is_cache_valid_def bind_simps)
qed

lemma fetch_from_api_contacted:
  "fetch_from_api api tickers result sent = (sent', out) \<Longrightarrow> set sent' \<subseteq> set sent \<union> set tickers"
proof (induction tickers arbitrary: result sent)
  case Nil
  then show ?case by simp
next
  case (Cons ticker tickers)
  show ?case
  proof (cases "fetch_ticker api ticker")
    case (Inr d)
    with Cons.prems have "fetch_from_api api tickers (AList.update ticker d result)
        (sent @ [ticker]) = (sent', out)" by simp
    from Cons.IH [OF this] show ?thesis by auto
  next
    case (Inl e)
    show ?thesis
    proof (cases "caught e")
      case True
      with Inl Cons.prems have "fetch_from_api api tickers result (sent @ [ticker]) = (sent', out)"
        by simp
      from Cons.IH [OF this] show ?thesis by auto
    next
      case False
      with Inl Cons.prems show ?thesis by auto
    qed
  qed
qed

lemma fetch_from_api_returned:
  "fetch_from_api api tickers result sent = (sent', Inr api_data)
     \<Longrightarrow> set sent' = set sent \<union> set tickers
         \<and> fst ` set api_data \<subseteq> fst ` set result \<union> set tickers"
proof (induction tickers arbitrary: result sent)
  case Nil
  then show ?case by auto
next
  case (Cons ticker tickers)
  show ?case
  proof (cases "fetch_ticker api ticker")
    case (Inr d)
    with Cons.prems have "fetch_from_api api tickers (AList.update ticker d result)
        (sent @ [ticker]) = (sent', Inr api_data)" by simp
    from Cons.IH [OF this] show ?thesis by (auto simp: dom_update)
  next
    case (Inl e)
    show ?thesis
    proof (cases "caught e")
      case True
      with Inl Cons.prems have
        "fetch_from_api api tickers result (sent @ [ticker]) = (sent', Inr api_data)"
        by simp
      from Cons.IH [OF this] show ?thesis by auto
    next
      case False
      with Inl Cons.prems show ?thesis by auto
    qed
  qed
qed

lemma store_loop_other:
  "store_loop now rf api_data db result = (db', Inr result') \<Longrightarrow> t \<notin> fst ` set api_data
     \<Longrightarrow> map_of result' t = map_of result t"
proof (induction api_data arbitrary: db result)
  case Nil
  then show ?case by simp
next
  case (Cons entry api_data)
  obtain ticker d where e: "entry = (ticker, d)" by (cases entry)
  from Cons.prems(2) e have nt: "ticker \<noteq> t" and rest: "t \<notin> fst ` set api_data" by auto
  show ?case
  proof (cases "validate_data d rf")
    case False
    with Cons.prems(1) e have "store_loop now rf api_data db result = (db', Inr result')" by simp
    from Cons.IH [OF this rest] show ?thesis .
  next
    case True
    show ?thesis
    proof (cases "save_stock_data now db ticker d")
      case (Inl err)
      with Cons.prems(1) e True show ?thesis by simp
    next
      case (Inr db1)
      with Cons.prems(1) e True have
        "store_loop now rf api_data db1 (AList.update ticker d result) = (db', Inr result')"
        by simp
      from Cons.IH [OF this rest] nt show ?thesis by (simp add: update_conv')
    qed
  qed
qed

text \<open>
  The dictionary that lines 53 to 59 build from a cached row holds the row's \<open>price\<close>,
  \<open>shares\<close>, \<open>fcf\<close>, \<open>sector\<close> and \<open>eps\<close> under these five keys and nothing else.
\<close>

lemma cached_record_fields:
  "cached_record r ''price'' = Some (row_price r)"
  "cached_record r ''shares'' = Some (row_shares r)"
  "cached_record r ''fcf'' = Some (row_fcf r)"
  "cached_record r ''sector'' = Some (row_sector r)"
  "cached_record r ''eps'' = Some (row_eps r)"
  "dom (cached_record r) = {''price'', ''shares'', ''fcf'', ''sector'', ''eps''}"
  by (auto simp: cached_record_def)

text \<open>
  A fresh and complete ticker is put on \<open>to_fetch\<close> by no iteration, and the later loops
  touch only the tickers of \<open>to_fetch\<close>.
\<close>

lemma fresh_cache_hit:
  assumes "db t = Some r" and "list_all (row_has r) required_fields"
    and "row_timestamp r = Some ts" and "now - ts < cache_duration"
    and "t \<in> set tickers"
  shows "t \<notin> set (contacted (fetch_data cache_duration now api db tickers required_fields True))
    \<and> (\<forall>result. returned (fetch_data cache_duration now api db tickers required_fields True)
            = Inr result \<longrightarrow> map_of result t = Some (cached_record r))
    \<and> ((\<forall>t' \<in> set tickers. \<exists>r' ts'. db t' = Some r' \<and> list_all (row_has r') required_fields
            \<and> row_timestamp r' = Some ts' \<and> now - ts' < cache_duration)
        \<longrightarrow> contacted (fetch_data cache_duration now api db tickers required_fields True) = []
          \<and> (\<exists>result. returned (fetch_data cache_duration now api db tickers required_fields
                 True) = Inr result))"
proof -
  let ?F = "fetch_data cache_duration now api db tickers required_fields True"
  define all_fresh where "all_fresh \<longleftrightarrow>
    (\<forall>t' \<in> set tickers. \<exists>r' ts'. db t' = Some r' \<and> list_all (row_has r') required_fields
            \<and> row_timestamp r' = Some ts' \<and> now - ts' < cache_duration)"
  have loop: "\<exists>result'. cache_loop cache_duration now db required_fields tickers [] []
                = Inr (result', [])" if all_fresh
    using cache_loop_all_fresh [OF that [unfolded all_fresh_def], of "[]" "[]"] .
  have "t \<notin> set (contacted ?F)
    \<and> (\<forall>result. returned ?F = Inr result \<longrightarrow> map_of result t = Some (cached_record r))
    \<and> (all_fresh \<longrightarrow> contacted ?F = [] \<and> (\<exists>result. returned ?F = Inr result))"
  proof (cases "cache_loop cache_duration now db required_fields tickers [] []")
    case (Inl e)
    then have c: "contacted ?F = []" and r: "returned ?F = Inl e"
      by (simp_all add: fetch_data_def)
    from loop Inl have "\<not> all_fresh" by auto
    with c r show ?thesis by simp
  next
    case (Inr pair)
    obtain result to_fetch where p: "pair = (result, to_fetch)" by (cases pair)
    with Inr have cl: "cache_loop cache_duration now db required_fields tickers [] []
        = Inr (result, to_fetch)" by simp
    from cache_loop_fresh [OF assms(1-4) cl] assms(5)
    have nq: "t \<notin> set to_fetch" and hit: "map_of result t = Some (cached_record r)" by auto
    have allfresh: "to_fetch = []" if all_fresh
      using loop [OF that] cl by simp
    show ?thesis
    proof (cases "to_fetch = []")
      case True
      with cl have "contacted ?F = []" and "returned ?F = Inr result"
        by (simp_all add: fetch_data_def)
      with hit show ?thesis by simp
    next
      case False
      with allfresh have naf: "\<not> all_fresh" by blast
      obtain sent out where fa: "fetch_from_api api to_fetch [] [] = (sent, out)"
        by (cases "fetch_from_api api to_fetch [] []")
      from fetch_from_api_contacted [OF fa] nq have ns: "t \<notin> set sent" by auto
      show ?thesis
      proof (cases out)
        case (Inl e)
        with cl False fa have "contacted ?F = sent" and "returned ?F = Inl e"
          by (simp_all add: fetch_data_def)
        with ns naf show ?thesis by simp
      next
        case (Inr api_data)
        obtain db' res where sl: "store_loop now required_fields api_data db result = (db', res)"
          by (cases "store_loop now required_fields api_data db result")
        from fetch_from_api_returned [OF fa [unfolded Inr]] nq
        have nk: "t \<notin> fst ` set api_data" by auto
        from cl False fa Inr sl have c: "contacted ?F = sent" and r: "returned ?F = res"
          by (simp_all add: fetch_data_def)
        have "\<forall>result'. res = Inr result' \<longrightarrow> map_of result' t = Some (cached_record r)"
          using store_loop_other [OF _ nk] sl hit by auto
        with c r ns naf show ?thesis by simp
      qed
    qed
  qed
  then show ?thesis unfolding all_fresh_def .
qed

text \<open>
  C7: with \<open>use_cache\<close> set, a requested ticker whose cached row has a value for every
  required field and a timestamp less than the cache duration ago is sent no request,
  and every returned dictionary maps it to a record that holds, under the keys \<open>price\<close>,
  \<open>shares\<close>, \<open>fcf\<close>, \<open>sector\<close> and \<open>eps\<close> and no others, the values of the cached row's
  columns of these names. When this holds of every requested ticker, no request is sent
  at all and \<open>fetch_data\<close> returns without an exception.
\<close>

theorem fresh_cache_hit_no_remote_call:
  assumes "db t = Some r" and "list_all (row_has r) required_fields"
    and "row_timestamp r = Some ts" and "now - ts < cache_duration"
    and "t \<in> set tickers"
  shows "t \<notin> set (contacted (fetch_data cache_duration now api db tickers required_fields True))
    \<and> (\<forall>result. returned (fetch_data cache_duration now api db tickers required_fields True)
            = Inr result \<longrightarrow>
          (\<exists>d. map_of result t = Some d
             \<and> d ''price'' = Some (row_price r)
             \<and> d ''shares'' = Some (row_shares r)
             \<and> d ''fcf'' = Some (row_fcf r)
             \<and> d ''sector'' = Some (row_sector r)
             \<and> d ''eps'' = Some (row_eps r)
             \<and> dom d = {''price'', ''shares'', ''fcf'', ''sector'', ''eps''}))
    \<and> ((\<forall>t' \<in> set tickers. \<exists>r' ts'. db t' = Some r' \<and> list_all (row_has r') required_fields
            \<and> row_timestamp r' = Some ts' \<and> now - ts' < cache_duration)
        \<longrightarrow> contacted (fetch_data cache_duration now api db tickers required_fields True) = []
          \<and> (\<exists>result. returned (fetch_data cache_duration now api db tickers required_fields
                 True) = Inr result))"
proof (intro conjI allI impI)
  have hit: "t \<notin> set (contacted (fetch_data cache_duration now api db tickers required_fields True))
    \<and> (\<forall>result. returned (fetch_data cache_duration now api db tickers required_fields True)
            = Inr result \<longrightarrow> map_of result t = Some (cached_record r))
    \<and> ((\<forall>t' \<in> set tickers. \<exists>r' ts'. db t' = Some r' \<and> list_all (row_has r') required_fields
            \<and> row_timestamp r' = Some ts' \<and> now - ts' < cache_duration)
        \<longrightarrow> contacted (fetch_data cache_duration now api db tickers required_fields True) = []
          \<and> (\<exists>result. returned (fetch_data cache_duration now api db tickers required_fields
                 True) = Inr result))"
    using fresh_cache_hit [of db t r required_fields ts now cache_duration tickers api] assms
    by blast
  from hit show
    "t \<notin> set (contacted (fetch_data cache_duration now api db tickers required_fields True))"
    by (rule conjunct1)
  from hit show
    "contacted (fetch_data cache_duration now api db tickers required_fields True) = []"
    if "\<forall>t' \<in> set tickers. \<exists>r' ts'. db t' = Some r' \<and> list_all (row_has r') required_fields
            \<and> row_timestamp r' = Some ts' \<and> now - ts' < cache_duration"
    using that by blast
  from hit show
    "\<exists>result. returned (fetch_data cache_duration now api db tickers required_fields True)
        = Inr result"
    if "\<forall>t' \<in> set tickers. \<exists>r' ts'. db t' = Some r' \<and> list_all (row_has r') required_fields
            \<and> row_timestamp r' = Some ts' \<and> now - ts' < cache_duration"
    using that by blast
  fix result
  assume "returned (fetch_data cache_duration now api db tickers required_fields True)
            = Inr result"
  with hit have m: "map_of result t = Some (cached_record r)" by blast
  show "\<exists>d. map_of result t = Some d
             \<and> d ''price'' = Some (row_price r)
             \<and> d ''shares'' = Some (row_shares r)
             \<and> d ''fcf'' = Some (row_fcf r)
             \<and> d ''sector'' = Some (row_sector r)
             \<and> d ''eps'' = Some (row_eps r)
             \<and> dom d = {''price'', ''shares'', ''fcf'', ''sector'', ''eps''}"
    using m cached_record_fields [of r] by (intro exI [of _ "cached_record r"] conjI)
qed

theorem fresh_cache_hit_no_remote_call_witness:
  "cached_db ''AAPL'' = Some cached_row
   \<and> list_all (row_has cached_row) default_required_fields
   \<and> (86399999999::int) - 0 < one_day
   \<and> contacted (fetch_data one_day 86399999999 good_api cached_db [''AAPL'']
        default_required_fields True) = []
   \<and> (\<exists>d. returned (fetch_data one_day 86399999999 good_api cached_db [''AAPL'']
               default_required_fields True) = Inr [(''AAPL'', d)]
         \<and> d ''price'' = Some (PNum 150)
         \<and> d ''shares'' = Some (PNum 1000000)
         \<and> d ''fcf'' = Some (PNum 1000000)
         \<and> d ''sector'' = Some (PStr ''Technology'')
         \<and> d ''eps'' = Some (PNum 5)
         \<and> dom d = {''price'', ''shares'', ''fcf'', ''sector'', ''eps''})"
proof -
  let ?F = "fetch_data one_day 86399999999 good_api cached_db [''AAPL'']
              default_required_fields True"
  have a: "cached_db ''AAPL'' = Some cached_row" by (simp add: cached_db_def)
  have b: "list_all (row_has cached_row) default_required_fields"
    by (simp add: row_has_def cached_row_def default_required_fields_def)
  have c: "row_timestamp cached_row = Some 0" by (simp add: cached_row_def)
  have d: "(86399999999::int) - 0 < one_day" by (simp add: one_day_def)
  have e: "''AAPL'' \<in> set [''AAPL'']" by simp
  have "\<exists>rec. returned ?F = Inr [(''AAPL'', rec)]"
    using b by (simp add: fetch_data_def get_cached_data_def a c is_cache_valid_def bind_simps
        one_day_def)
  then obtain rec where r: "returned ?F = Inr [(''AAPL'', rec)]" ..
  note inst = fresh_cache_hit_no_remote_call [of cached_db "''AAPL''" cached_row
      default_required_fields 0 86399999999 one_day "[''AAPL'']" good_api]
  from inst a b c d have n: "contacted ?F = []" by simp
  from inst a b c d e r have
    "rec ''price'' = Some (row_price cached_row)
     \<and> rec ''shares'' = Some (row_shares cached_row)
     \<and> rec ''fcf'' = Some (row_fcf cached_row)
     \<and> rec ''sector'' = Some (row_sector cached_row)
     \<and> rec ''eps'' = Some (row_eps cached_row)
     \<and> dom rec = {''price'', ''shares'', ''fcf'', ''sector'', ''eps''}"
    by auto
  then have f: "rec ''price'' = Some (PNum 150) \<and> rec ''shares'' = Some (PNum 1000000)
     \<and> rec ''fcf'' = Some (PNum 1000000) \<and> rec ''sector'' = Some (PStr ''Technology'')
     \<and> rec ''eps'' = Some (PNum 5)
     \<and> dom rec = {''price'', ''shares'', ''fcf'', ''sector'', ''eps''}"
    by (simp add: cached_row_def)
  from a b d n r f show ?thesis by blast
qed

text \<open>
  C8: a cached row whose age \<open>now - timestamp\<close> equals the cache duration is not valid
  (the comparison is a strict \<open><\<close>); its ticker is put on \<open>to_fetch\<close> and not taken
  from the cache, and whenever \<open>fetch_data\<close> returns without an exception a request was
  sent for it.
\<close>

theorem boundary_age_is_expired:
  assumes "db t = Some r" and "row_timestamp r = Some ts" and "now - ts = cache_duration"
    and "t \<in> set tickers"
  shows "is_cache_valid cache_duration now (row_timestamp r) = Inr False
    \<and> (\<forall>result to_fetch.
          cache_loop cache_duration now db required_fields tickers [] [] = Inr (result, to_fetch)
          \<longrightarrow> t \<in> set to_fetch \<and> map_of result t = None)
    \<and> (\<forall>result. returned (fetch_data cache_duration now api db tickers required_fields use_cache)
            = Inr result
          \<longrightarrow> t \<in> set (contacted
                 (fetch_data cache_duration now api db tickers required_fields use_cache)))"
proof (intro conjI allI impI)
  show "is_cache_valid cache_duration now (row_timestamp r) = Inr False"
    using assms(2,3) by (simp add: is_cache_valid_def)
next
  fix result to_fetch
  assume cl: "cache_loop cache_duration now db required_fields tickers [] [] = Inr (result, to_fetch)"
  have st: "\<not> now - ts < cache_duration" using assms(3) by simp
  from cache_loop_stale [OF assms(1,2) st cl] assms(4) show "t \<in> set to_fetch" by simp
  from cache_loop_stale_miss [OF assms(1,2) st cl] show "map_of result t = None" by simp
next
  fix result
  assume ret: "returned (fetch_data cache_duration now api db tickers required_fields use_cache)
            = Inr result"
  have st: "\<not> now - ts < cache_duration" using assms(3) by simp
  obtain res0 to_fetch where
    pre: "(if use_cache then cache_loop cache_duration now db required_fields tickers [] []
            else Inr ([], tickers)) = Inr (res0, to_fetch)"
    using ret
    by (cases "if use_cache then cache_loop cache_duration now db required_fields tickers [] []
            else Inr ([], tickers)") (auto simp: fetch_data_def)
  have q: "t \<in> set to_fetch"
  proof (cases use_cache)
    case True
    with pre have "cache_loop cache_duration now db required_fields tickers [] []
        = Inr (res0, to_fetch)" by simp
    from cache_loop_stale [OF assms(1,2) st this] assms(4) show ?thesis by simp
  next
    case False
    with pre assms(4) show ?thesis by simp
  qed
  then have ne: "to_fetch \<noteq> []" by auto
  obtain sent out where fa: "fetch_from_api api to_fetch [] [] = (sent, out)"
    by (cases "fetch_from_api api to_fetch [] []")
  show "t \<in> set (contacted
          (fetch_data cache_duration now api db tickers required_fields use_cache))"
  proof (cases out)
    case (Inl e)
    with pre ne fa ret show ?thesis by (simp add: fetch_data_def)
  next
    case (Inr api_data)
    from fetch_from_api_returned [OF fa [unfolded Inr]] q have "t \<in> set sent" by simp
    moreover from pre ne fa Inr have
      "contacted (fetch_data cache_duration now api db tickers required_fields use_cache) = sent"
      by (simp add: fetch_data_def split: prod.splits)
    ultimately show ?thesis by simp
  qed
qed

theorem boundary_age_is_expired_witness:
  "cached_db ''AAPL'' = Some cached_row
   \<and> row_timestamp cached_row = Some 0
   \<and> one_day - 0 = one_day
   \<and> is_cache_valid one_day one_day (row_timestamp cached_row) = Inr False
   \<and> returned (fetch_data one_day one_day good_api cached_db [''AAPL'']
        default_required_fields True) = Inr [(''AAPL'', aapl_fetched)]
   \<and> ''AAPL'' \<in> set (contacted (fetch_data one_day one_day good_api cached_db [''AAPL'']
        default_required_fields True))"
proof -
  have a: "cached_db ''AAPL'' = Some cached_row" by (simp add: cached_db_def)
  have c: "row_timestamp cached_row = Some 0" by (simp add: cached_row_def)
  have d: "one_day - 0 = one_day" by simp
  have e: "''AAPL'' \<in> set [''AAPL'']" by simp
  have b: "list_all (row_has cached_row) default_required_fields"
    by (simp add: row_has_def cached_row_def default_required_fields_def)
  have f: "fetch_ticker good_api ''AAPL'' = Inr aapl_fetched"
    by (simp add: fetch_ticker_def good_api_def request_def field_of_def
        bind_simps aapl_fetched_def)
  have v: "validate_data aapl_fetched default_required_fields"
    by (simp add: validate_data_def default_required_fields_def aapl_fetched_def)
  have s: "\<exists>db'. save_stock_data one_day cached_db ''AAPL'' aapl_fetched = Inr db'"
    by (simp add: save_stock_data_def aapl_fetched_def get_def Let_def)
  have r: "returned (fetch_data one_day one_day good_api cached_db [''AAPL'']
        default_required_fields True) = Inr [(''AAPL'', aapl_fetched)]"
    using b s by (auto simp: fetch_data_def get_cached_data_def a c is_cache_valid_def
        bind_simps f v)
  from boundary_age_is_expired [of cached_db "''AAPL''" cached_row 0 one_day one_day
      "[''AAPL'']" default_required_fields good_api True] a c r
  show ?thesis by simp
qed

lemma good_fetch: "t \<noteq> ''BAD'' \<Longrightarrow> fetch_ticker malformed_api t = Inr aapl_fetched"
  by (simp add: fetch_ticker_def malformed_api_def good_api_def request_def field_of_def
      bind_simps aapl_fetched_def)

lemma bad_fetch: "fetch_ticker malformed_api ''BAD'' = Inl TypeError"
  by (simp add: fetch_ticker_def malformed_api_def request_def field_of_def bind_simps)

text \<open>
  C9 fails on the code: the \<open>except\<close> clause of \<open>fetch_from_api\<close> names
  \<open>RequestException\<close>, \<open>IndexError\<close> and \<open>KeyError\<close> only. A quote body \<open>[null]\<close> makes
  \<open>'price' in price_data[0]\<close> raise \<open>TypeError\<close>, which leaves \<open>fetch_from_api\<close> and
  \<open>fetch_data\<close>: the batch \<open>BAD, AAPL\<close> returns nothing, although \<open>AAPL\<close> alone is fetched.
\<close>

theorem malformed_response_escapes:
  "returned (fetch_data one_day 1000 malformed_api Map.empty [''BAD'', ''AAPL'']
              default_required_fields True) = Inl TypeError
   \<and> returned (fetch_data one_day 1000 malformed_api Map.empty [''AAPL'']
              default_required_fields True) = Inr [(''AAPL'', aapl_fetched)]"
proof -
  have v: "validate_data aapl_fetched default_required_fields"
    by (simp add: validate_data_def default_required_fields_def aapl_fetched_def)
  have s: "\<exists>db'. save_stock_data 1000 Map.empty ''AAPL'' aapl_fetched = Inr db'"
    by (simp add: save_stock_data_def aapl_fetched_def get_def Let_def)
  have a: "returned (fetch_data one_day 1000 malformed_api Map.empty [''BAD'', ''AAPL'']
              default_required_fields True) = Inl TypeError"
    by (simp add: fetch_data_def get_cached_data_def bad_fetch)
  have b: "returned (fetch_data one_day 1000 malformed_api Map.empty [''AAPL'']
              default_required_fields True) = Inr [(''AAPL'', aapl_fetched)]"
    using s by (auto simp: fetch_data_def get_cached_data_def good_fetch v)
  from a b show ?thesis by simp
qed

text \<open>A failure that the \<open>except\<close> clause names only skips its ticker.\<close>

lemma caught_failure_skips_ticker:
  assumes "fetch_ticker api ticker = Inl e" and "caught e"
  shows "fetch_from_api api (ticker # tickers) result sent
           = fetch_from_api api tickers result (sent @ [ticker])"
  using assms by simp

end
